theory Spec2Isabelle
  imports Main "HOL-Library.Word" "HOL-Library.Sublist"
begin

chapter \<open>The tag output subsystem of ctags: a shallow embedding\<close>

text \<open>
  Conventions of the embedding.
  \<^item> A C string (\<open>const char *\<close>) is the list of its characters before the terminating
    NUL; a pointer that may be \<open>NULL\<close> is an \<open>option\<close>.
  \<^item> \<open>Assert\<close> and \<open>AssertNotReached\<close> are the macros of \<open>debug.h\<close>, empty unless the
    program is built with \<open>DEBUG\<close>; the model is the release build. Where an assertion
    guards a memory access (an index into an array), the model returns an error value
    for the access out of range instead of reading unspecified memory.
  \<^item> Messages of \<open>error (WARNING, ...)\<close> and \<open>verbose (...)\<close> are collected in a log that
    the function returns; \<open>error (FATAL, ...)\<close> ends the process and is an error value.
\<close>

section \<open>Part I: definitions\<close>

subsection \<open>The field registry (field.c, the version with \<open>fieldObject\<close>)\<close>

type_synonym fieldType = int
type_synonym langType = int

definition FIELD_UNKNOWN :: fieldType where
  "FIELD_UNKNOWN = - 1"

definition LANG_IGNORE :: langType where
  "LANG_IGNORE = - 2"

definition NUL_FIELD_LETTER :: char where
  "NUL_FIELD_LETTER = CHR 0x00"

text \<open>
  \<open>fieldDefinition\<close>: the members that the modelled functions read or write. The
  description, the table of renderers, the availability predicate and the data type
  mask are read by no function modelled here and are left out.
\<close>

record fieldDefinition =
  fd_letter :: char
  fd_name :: "string option"
  fd_enabled :: bool

record fieldObject =
  fo_def :: fieldDefinition
  fo_fixed :: bool
  fo_nameWithPrefix :: "string option"
  fo_language :: langType
  fo_sibling :: fieldType

datatype message =
    Warning string
  | VerboseEnableField "string option" "langType option" bool

definition DEFINE_FIELD :: "char \<Rightarrow> string option \<Rightarrow> bool \<Rightarrow> fieldDefinition" where
  "DEFINE_FIELD L N V = \<lparr>fd_letter = L, fd_name = N, fd_enabled = V\<rparr>"

definition fieldDefinitionsFixed :: "fieldDefinition list" where
  "fieldDefinitionsFixed =
    [DEFINE_FIELD (CHR ''N'') (Some ''name'') True,
     DEFINE_FIELD (CHR ''F'') (Some ''input'') True,
     DEFINE_FIELD (CHR ''P'') (Some ''pattern'') True]"

definition fieldDefinitionsExuberant :: "fieldDefinition list" where
  "fieldDefinitionsExuberant =
    [DEFINE_FIELD (CHR ''C'') (Some ''compact'') False,
     DEFINE_FIELD (CHR ''a'') (Some ''access'') False,
     DEFINE_FIELD (CHR ''f'') (Some ''file'') True,
     DEFINE_FIELD (CHR ''i'') (Some ''inherits'') False,
     DEFINE_FIELD (CHR ''K'') None False,
     DEFINE_FIELD (CHR ''k'') None True,
     DEFINE_FIELD (CHR ''l'') (Some ''language'') False,
     DEFINE_FIELD (CHR ''m'') (Some ''implementation'') False,
     DEFINE_FIELD (CHR ''n'') (Some ''line'') False,
     DEFINE_FIELD (CHR ''S'') (Some ''signature'') False,
     DEFINE_FIELD (CHR ''s'') None True,
     DEFINE_FIELD (CHR ''t'') (Some ''typeref'') True,
     DEFINE_FIELD (CHR ''z'') (Some ''kind'') False]"

definition fieldDefinitionsUniversal :: "fieldDefinition list" where
  "fieldDefinitionsUniversal =
    [DEFINE_FIELD (CHR ''r'') (Some ''role'') False,
     DEFINE_FIELD (CHR ''R'') None False,
     DEFINE_FIELD (CHR ''Z'') (Some ''scope'') False,
     DEFINE_FIELD (CHR ''E'') (Some ''extras'') False,
     DEFINE_FIELD (CHR ''x'') (Some ''xpath'') False,
     DEFINE_FIELD (CHR ''p'') (Some ''scopeKind'') False,
     DEFINE_FIELD (CHR ''e'') (Some ''end'') False]"

text \<open>
  \<open>initFieldObjects\<close>: the three loops, one per table. \<open>CTAGS_FIELD_PREFIX\<close> is a macro
  of \<open>field.h\<close>, which is not among the sources; it is a parameter.
\<close>

definition initFieldObjects :: "string \<Rightarrow> fieldObject list" where
  "initFieldObjects CTAGS_FIELD_PREFIX =
     map (\<lambda>d. \<lparr>fo_def = d, fo_fixed = True, fo_nameWithPrefix = fd_name d,
                fo_language = LANG_IGNORE, fo_sibling = FIELD_UNKNOWN\<rparr>) fieldDefinitionsFixed
   @ map (\<lambda>d. \<lparr>fo_def = d, fo_fixed = False, fo_nameWithPrefix = fd_name d,
                fo_language = LANG_IGNORE, fo_sibling = FIELD_UNKNOWN\<rparr>) fieldDefinitionsExuberant
   @ map (\<lambda>d. \<lparr>fo_def = d, fo_fixed = False,
                fo_nameWithPrefix =
                  (case fd_name d of Some n \<Rightarrow> Some (CTAGS_FIELD_PREFIX @ n) | None \<Rightarrow> None),
                fo_language = LANG_IGNORE, fo_sibling = FIELD_UNKNOWN\<rparr>) fieldDefinitionsUniversal"

text \<open>
  \<open>getFieldObject\<close> is \<open>fieldObjects + type\<close> behind an assertion on the range; outside
  the range the C reads memory that is not a field object, here \<open>None\<close>.
\<close>

definition getFieldObject :: "fieldObject list \<Rightarrow> fieldType \<Rightarrow> fieldObject option" where
  "getFieldObject fieldObjects type =
     (if 0 \<le> type \<and> type < int (length fieldObjects)
      then Some (fieldObjects ! nat type) else None)"

definition isFieldEnabled :: "fieldObject list \<Rightarrow> fieldType \<Rightarrow> bool option" where
  "isFieldEnabled fieldObjects type =
     map_option (\<lambda>fobj. fd_enabled (fo_def fobj)) (getFieldObject fieldObjects type)"

definition isFieldFixed :: "fieldObject list \<Rightarrow> fieldType \<Rightarrow> bool option" where
  "isFieldFixed fieldObjects type =
     map_option fo_fixed (getFieldObject fieldObjects type)"

text \<open>
  \<open>FIELD_BUILTIN_LAST\<close> is the last enumerator of the built-in fields in \<open>field.h\<close>:
  the index of the last entry that \<open>initFieldObjects\<close> creates.
\<close>

definition FIELD_BUILTIN_LAST :: fieldType where
  "FIELD_BUILTIN_LAST =
     int (length fieldDefinitionsFixed + length fieldDefinitionsExuberant
          + length fieldDefinitionsUniversal) - 1"

definition isCommonField :: "fieldType \<Rightarrow> bool" where
  "isCommonField type = (if FIELD_BUILTIN_LAST < type then False else True)"

definition fixedFieldWarning :: "fieldDefinition \<Rightarrow> message list" where
  "fixedFieldWarning d =
     (case fd_name d of
        Some n \<Rightarrow>
          (if fd_letter d \<noteq> NUL_FIELD_LETTER
           then [Warning (''Cannot disable fixed field: '' @ [CHR 0x27, fd_letter d, CHR 0x27]
                          @ ''{'' @ n @ ''}'')]
           else [Warning (''Cannot disable fixed field: {'' @ n @ ''}'')])
      | None \<Rightarrow>
          (if fd_letter d \<noteq> NUL_FIELD_LETTER
           then [Warning (''Cannot disable fixed field: '' @ [CHR 0x27, fd_letter d, CHR 0x27])]
           else []))"

text \<open>
  \<open>enableField\<close> returns the old state, the registry after the call and the messages.
\<close>

definition enableField ::
  "fieldObject list \<Rightarrow> fieldType \<Rightarrow> bool \<Rightarrow> bool
     \<Rightarrow> (bool \<times> fieldObject list \<times> message list) option" where
  "enableField fieldObjects type state warnIfFixedField =
     (case getFieldObject fieldObjects type of
        None \<Rightarrow> None
      | Some fobj \<Rightarrow>
          (let d = fo_def fobj; old = fd_enabled d in
           if fo_fixed fobj
           then Some (old, fieldObjects,
                      if \<not> state \<and> warnIfFixedField then fixedFieldWarning d else [])
           else Some (old,
                      fieldObjects[nat type := fobj\<lparr>fo_def := d\<lparr>fd_enabled := state\<rparr>\<rparr>],
                      [VerboseEnableField (fd_name d)
                         (if isCommonField type then None else Some (fo_language fobj))
                         state])))"

text \<open>
  The sequence of the registry property: enable, disable, enable again, then query.
  The result holds the three values returned and the answer of the final query.
\<close>

definition enableDisableEnable ::
  "fieldObject list \<Rightarrow> fieldType \<Rightarrow> bool \<Rightarrow> (bool list \<times> bool) option" where
  "enableDisableEnable fieldObjects type warn =
     (case enableField fieldObjects type True warn of
        None \<Rightarrow> None
      | Some (r1, objs1, _) \<Rightarrow>
     (case enableField objs1 type False warn of
        None \<Rightarrow> None
      | Some (r2, objs2, _) \<Rightarrow>
     (case enableField objs2 type True warn of
        None \<Rightarrow> None
      | Some (r3, objs3, _) \<Rightarrow>
     (case isFieldEnabled objs3 type of
        None \<Rightarrow> None
      | Some q \<Rightarrow> Some ([r1, r2, r3], q)))))"

text \<open>
  The invariant of the registry that the property of fixed fields rests on: a fixed
  field is enabled and has a name or a letter to be reported under.
\<close>

definition fixedFieldsEnabled :: "fieldObject list \<Rightarrow> bool" where
  "fixedFieldsEnabled fieldObjects =
     list_all (\<lambda>fobj. fo_fixed fobj \<longrightarrow>
                 fd_enabled (fo_def fobj)
                 \<and> (fd_name (fo_def fobj) \<noteq> None \<or> fd_letter (fo_def fobj) \<noteq> NUL_FIELD_LETTER))
              fieldObjects"

text \<open>
  \<open>updateSiblingField\<close>: the loop runs \<open>i\<close> from \<open>type\<close> down to 1 and looks at the
  object \<open>i - 1\<close>; the first object of the same name gets the new field as sibling.
\<close>

fun updateSiblingField_loop ::
  "fieldObject list \<Rightarrow> fieldType \<Rightarrow> string \<Rightarrow> nat \<Rightarrow> fieldObject list" where
  "updateSiblingField_loop fieldObjects type name 0 = fieldObjects"
| "updateSiblingField_loop fieldObjects type name (Suc j) =
     (if j < length fieldObjects \<and> fd_name (fo_def (fieldObjects ! j)) = Some name
      then fieldObjects[j := (fieldObjects ! j)\<lparr>fo_sibling := type\<rparr>]
      else updateSiblingField_loop fieldObjects type name j)"

definition updateSiblingField ::
  "fieldObject list \<Rightarrow> fieldType \<Rightarrow> string \<Rightarrow> fieldObject list" where
  "updateSiblingField fieldObjects type name =
     updateSiblingField_loop fieldObjects type name (nat type)"

text \<open>
  \<open>defineField\<close> appends an object for a field of a parser. The name must not be
  \<open>NULL\<close> (\<open>strlen\<close> reads it): \<open>None\<close> stands for that call.
\<close>

definition defineField ::
  "string \<Rightarrow> fieldObject list \<Rightarrow> fieldDefinition \<Rightarrow> langType
     \<Rightarrow> (fieldObject list \<times> fieldType) option" where
  "defineField CTAGS_FIELD_PREFIX fieldObjects d language =
     (case fd_name d of
        None \<Rightarrow> None
      | Some n \<Rightarrow>
          (let ftype = int (length fieldObjects);
               fobj = \<lparr>fo_def = d\<lparr>fd_letter := NUL_FIELD_LETTER\<rparr>, fo_fixed = False,
                       fo_nameWithPrefix = Some (CTAGS_FIELD_PREFIX @ n),
                       fo_language = language, fo_sibling = FIELD_UNKNOWN\<rparr>
           in Some (updateSiblingField (fieldObjects @ [fobj]) ftype n, ftype)))"

subsection \<open>Characters and C strings\<close>

definition TAB :: char where "TAB = CHR 0x09"
definition NEWLINE :: char where "NEWLINE = CHR 0x0A"
definition CRETURN :: char where "CRETURN = CHR 0x0D"
definition FORMFEED :: char where "FORMFEED = CHR 0x0C"
definition BACKSLASH :: char where "BACKSLASH = CHR 0x5C"
definition NUL :: char where "NUL = CHR 0x00"

text \<open>\<open>isspace\<close> of the C locale: space, tab, line feed, vertical tab, form feed, return.\<close>

definition isspace :: "char \<Rightarrow> bool" where
  "isspace c = (c = CHR 0x20 \<or> c = CHR 0x09 \<or> c = CHR 0x0A \<or> c = CHR 0x0B
                \<or> c = CHR 0x0C \<or> c = CHR 0x0D)"

text \<open>
  \<open>s [i]\<close> on a C string: the character at \<open>i\<close>, and the terminating NUL at the
  length of the string.
\<close>

definition char_at :: "string \<Rightarrow> nat \<Rightarrow> char" where
  "char_at s i = (if i < length s then s ! i else NUL)"

text \<open>\<open>strchr (s, c)\<close> for a character other than NUL: the offset of its first occurrence.\<close>

definition strchr :: "string \<Rightarrow> char \<Rightarrow> nat option" where
  "strchr s c = (if c \<in> set s then Some (length (takeWhile (\<lambda>x. x \<noteq> c) s)) else None)"

subsection \<open>Options (the members of \<open>Option\<close> that the modelled functions read)\<close>

text \<open>
  \<open>sortType\<close> is the enumeration of \<open>options.h\<close>, in the order of its declaration; the
  comparison in \<open>updateSortedFlag\<close> reads its integer value.
\<close>

datatype sortType = SO_UNSORTED | SO_SORTED | SO_FOLDSORTED

datatype exCmd = EX_MIX | EX_LINENUM | EX_PATTERN

fun sortType_value :: "sortType \<Rightarrow> int" where
  "sortType_value SO_UNSORTED = 0"
| "sortType_value SO_SORTED = 1"
| "sortType_value SO_FOLDSORTED = 2"

record options =
  opt_tagFileFormat :: nat
  opt_sorted :: sortType
  opt_xref :: bool
  opt_etags :: bool
  opt_append :: bool
  opt_backward :: bool
  opt_patternLengthLimit :: nat
  opt_lineDirectives :: bool
  opt_putFieldPrefix :: bool
  opt_fatalWarnings :: bool
  opt_customXfmt :: "string option"
  opt_tagFileName :: string
  opt_outputEncoding :: "string option"
  opt_locate :: exCmd

subsection \<open>A stream on a regular file (\<open>FILE *\<close>)\<close>

text \<open>
  The file is its bytes and the stream has a position in it, a byte offset (the file
  is read as the C library reads it where text and binary mode are the same).
  \<open>seekable\<close> says whether \<open>fgetpos\<close> and \<open>fsetpos\<close> succeed; \<open>updateSortedFlag\<close> has a
  branch for their failure.
\<close>

record stream =
  contents :: string
  pos :: nat
  seekable :: bool

definition fgetpos :: "stream \<Rightarrow> nat option" where
  "fgetpos fp = (if seekable fp then Some (pos fp) else None)"

definition fsetpos :: "stream \<Rightarrow> nat \<Rightarrow> stream option" where
  "fsetpos fp p = (if seekable fp then Some (fp\<lparr>pos := p\<rparr>) else None)"

text \<open>\<open>fgetc\<close>: \<open>None\<close> is \<open>EOF\<close>.\<close>

definition fgetc :: "stream \<Rightarrow> char option \<times> stream" where
  "fgetc fp =
     (if pos fp < length (contents fp)
      then (Some (contents fp ! pos fp), fp\<lparr>pos := pos fp + 1\<rparr>)
      else (None, fp))"

text \<open>
  \<open>fputc\<close> overwrites the byte at the position, or extends the file when the position
  is at or beyond its end (the gap, if any, reads as zero bytes).
\<close>

definition fputc :: "char \<Rightarrow> stream \<Rightarrow> stream" where
  "fputc c fp =
     (if pos fp < length (contents fp)
      then fp\<lparr>contents := (contents fp)[pos fp := c], pos := pos fp + 1\<rparr>
      else fp\<lparr>contents := contents fp @ replicate (pos fp - length (contents fp)) NUL @ [c],
              pos := pos fp + 1\<rparr>)"

text \<open>
  \<open>readLineRaw\<close> is defined in \<open>read.c\<close>, which is not among the sources. It is taken
  to be \<open>fgets\<close> into a buffer that is large enough: the bytes up to and including the
  next line feed, or up to the end of the file; \<open>NULL\<close> at the end of the file. The
  string that the caller sees ends at the first NUL byte, if the line has one.
\<close>

definition readLineRaw :: "stream \<Rightarrow> string option \<times> stream" where
  "readLineRaw fp =
     (let rest = drop (pos fp) (contents fp) in
      if rest = [] then (None, fp)
      else (let raw = take (length (takeWhile (\<lambda>c. c \<noteq> NEWLINE) rest) + 1) rest
            in (Some (takeWhile (\<lambda>c. c \<noteq> NUL) raw), fp\<lparr>pos := pos fp + length raw\<rparr>)))"

subsection \<open>Append mode: the pseudo-tags of an existing tag file (entry.c)\<close>

definition PSEUDO_TAG_PREFIX :: string where
  "PSEUDO_TAG_PREFIX = ''!_''"

definition PSEUDO_TAG_SEPARATOR :: string where
  "PSEUDO_TAG_SEPARATOR = ''!''"

text \<open>
  The text that \<open>writePseudoTag\<close> prints: the two \<open>fprintf\<close> formats.
\<close>

definition pseudoTagLine :: "string \<Rightarrow> string \<Rightarrow> string \<Rightarrow> string option \<Rightarrow> string" where
  "pseudoTagLine tagName fileName pattern language =
     (case language of
        Some lang \<Rightarrow> PSEUDO_TAG_PREFIX @ tagName @ PSEUDO_TAG_SEPARATOR @ lang
                      @ [TAB] @ fileName @ [TAB] @ pattern @ [NEWLINE]
      | None \<Rightarrow> PSEUDO_TAG_PREFIX @ tagName @ [TAB] @ fileName @ [TAB]
                  @ ''/'' @ pattern @ ''/'' @ [NEWLINE])"

text \<open>The flag character that the program writes for \<open>Option.sorted\<close>.\<close>

definition sortedFlag :: "options \<Rightarrow> char" where
  "sortedFlag opts =
     (if opt_sorted opts = SO_FOLDSORTED then CHR ''2''
      else if opt_sorted opts = SO_SORTED then CHR ''1'' else CHR ''0'')"

text \<open>The \<open>TAG_FILE_SORTED\<close> line of \<open>addPseudoTags\<close>.\<close>

definition sortedPseudoTagLine :: "options \<Rightarrow> string" where
  "sortedPseudoTagLine opts =
     pseudoTagLine ''TAG_FILE_SORTED'' [sortedFlag opts]
       ''0=unsorted, 1=sorted, 2=foldcase'' None"

text \<open>
  \<open>line [boolOffset]\<close> of \<open>updateSortedFlag\<close>: the character after the first tab of the
  line, \<open>None\<close> for a line without a tab.
\<close>

definition existingFlag :: "string \<Rightarrow> char option" where
  "existingFlag line =
     (case strchr line TAB of
        None \<Rightarrow> None
      | Some tab \<Rightarrow> (let boolOffset = tab + 1 in Some (char_at line boolOffset)))"

text \<open>
  The loop \<open>do c = fgetc (fp); while (c != '\t' && c != '\n');\<close> on the bytes from
  the position on: the character it stops at and the number of bytes read. At the end
  of the file \<open>fgetc\<close> answers \<open>EOF\<close> for ever and the loop does not end: \<open>None\<close>.
\<close>

fun skipToFlag :: "string \<Rightarrow> (char \<times> nat) option" where
  "skipToFlag [] = None"
| "skipToFlag (c # cs) =
     (if c = TAB \<or> c = NEWLINE then Some (c, 1)
      else map_option (\<lambda>(d, n). (d, n + 1)) (skipToFlag cs))"

text \<open>
  \<open>updateSortedFlag\<close>. The result is \<open>None\<close> when the loop above does not end. The test
  \<open>d != (int) Option.sorted\<close> compares the character read with the value of the
  enumeration, as the source does.
\<close>

definition updateSortedFlag ::
  "options \<Rightarrow> string \<Rightarrow> stream \<Rightarrow> nat \<Rightarrow> (stream \<times> message list) option" where
  "updateSortedFlag opts line fp startOfLine =
     (case existingFlag line of
        None \<Rightarrow> Some (fp, [])
      | Some flag \<Rightarrow>
          if flag = CHR ''0'' \<or> flag = CHR ''1''
          then (case fgetpos fp of
                  None \<Rightarrow> Some (fp, [Warning ''Failed to update 'sorted' pseudo-tag''])
                | Some nextLine \<Rightarrow>
               (case fsetpos fp startOfLine of
                  None \<Rightarrow> Some (fp, [Warning ''Failed to update 'sorted' pseudo-tag''])
                | Some fp1 \<Rightarrow>
               (case skipToFlag (drop (pos fp1) (contents fp1)) of
                  None \<Rightarrow> None
                | Some (c, n) \<Rightarrow>
                    (let fp2 = fp1\<lparr>pos := pos fp1 + n\<rparr>;
                         flagLocation = pos fp2;
                         (d, fp3) = fgetc fp2;
                         fp4 = (if c = TAB \<and> (d = Some (CHR ''0'') \<or> d = Some (CHR ''1''))
                                   \<and> map_option (\<lambda>x. int (of_char x)) d
                                       \<noteq> Some (sortType_value (opt_sorted opts))
                                then fputc (sortedFlag opts) (fp3\<lparr>pos := flagLocation\<rparr>)
                                else fp3)
                     in Some (fp4\<lparr>pos := nextLine\<rparr>, [])))))
          else Some (fp, []))"

text \<open>
  \<open>sscanf (s, "%15s%c", classType, &tab)\<close>: the number of conversions, the word and
  the character after it. \<open>%s\<close> skips white space first and fails at the end of the
  string (\<open>EOF\<close>, \<open>- 1\<close>).
\<close>

definition sscanf_classType :: "string \<Rightarrow> int \<times> string \<times> char" where
  "sscanf_classType s =
     (let rest = dropWhile isspace s in
      if rest = [] then (- 1, [], NUL)
      else (let classType = take 15 (takeWhile (\<lambda>c. \<not> isspace c) rest)
            in case drop (length classType) rest of
                 [] \<Rightarrow> (1, classType, NUL)
               | tab # _ \<Rightarrow> (2, classType, tab)))"

text \<open>The second loop of \<open>updatePseudoTags\<close>: skip to the end of the file.\<close>

function updatePseudoTags_rest :: "stream \<Rightarrow> string option \<Rightarrow> nat \<Rightarrow> nat \<times> stream" where
  "updatePseudoTags_rest fp line linesRead =
     (case line of
        None \<Rightarrow> (linesRead, fp)
      | Some l \<Rightarrow>
          (let (line', fp') = readLineRaw fp
           in updatePseudoTags_rest fp' line' (linesRead + 1)))"
  by pat_completeness auto
termination
  by (relation "measure (\<lambda>(fp, line, n).
        length (contents fp) - pos fp + (case line of None \<Rightarrow> 0 | Some l \<Rightarrow> 1))")
     (auto simp: readLineRaw_def Let_def split: if_splits option.splits)

text \<open>
  \<open>updateSortedFlag\<close> returns with the stream at the position it had and the file at
  the length it had; the loop below ends because of it.
\<close>

lemma updateSortedFlag_frame:
  assumes "updateSortedFlag opts line fp startOfLine = Some (fp', msgs)"
  shows "pos fp' = pos fp \<and> length (contents fp') = length (contents fp)
         \<and> seekable fp' = seekable fp"
  using assms
  by (auto simp: updateSortedFlag_def Let_def fgetpos_def fsetpos_def fgetc_def fputc_def
      split: option.splits if_splits prod.splits)

text \<open>
  The first loop of \<open>updatePseudoTags\<close>, over the lines that begin with the first
  character of \<open>"!_TAG_FILE"\<close>. \<open>startOfLine\<close> is set again only after a line that
  begins with \<open>"!_TAG_FILE"\<close>; a failing \<open>fgetpos\<close> leaves the variable as it was.
\<close>

function updatePseudoTags_loop ::
  "options \<Rightarrow> stream \<Rightarrow> nat \<Rightarrow> string option \<Rightarrow> nat \<Rightarrow> message list
     \<Rightarrow> (nat \<times> stream \<times> message list) option" where
  "updatePseudoTags_loop opts fp startOfLine line linesRead msgs =
     (case line of
        None \<Rightarrow> (case updatePseudoTags_rest fp line linesRead of (n, fp') \<Rightarrow> Some (n, fp', msgs))
      | Some l \<Rightarrow>
          if char_at l 0 \<noteq> char_at (PSEUDO_TAG_PREFIX @ ''TAG_FILE'') 0
          then (case updatePseudoTags_rest fp line linesRead of (n, fp') \<Rightarrow> Some (n, fp', msgs))
          else if take 10 l = PSEUDO_TAG_PREFIX @ ''TAG_FILE''
          then (case (case sscanf_classType (drop 10 l) of
                        (n, classType, tab) \<Rightarrow>
                          if n = 2 \<and> tab = TAB \<and> classType = ''_SORTED''
                          then updateSortedFlag opts l fp startOfLine
                          else Some (fp, [])) of
                  None \<Rightarrow> None
                | Some (fp1, m) \<Rightarrow>
                    (let startOfLine' = (case fgetpos fp1 of Some p \<Rightarrow> p | None \<Rightarrow> startOfLine);
                         (line', fp2) = readLineRaw fp1
                     in updatePseudoTags_loop opts fp2 startOfLine' line' (linesRead + 1)
                          (msgs @ m)))
          else (let (line', fp2) = readLineRaw fp
                in updatePseudoTags_loop opts fp2 startOfLine line' (linesRead + 1) msgs))"
  by pat_completeness auto
termination
  by (relation "measure (\<lambda>(opts, fp, startOfLine, line, n, msgs).
        length (contents fp) - pos fp + (case line of None \<Rightarrow> 0 | Some l \<Rightarrow> 1))")
     (auto simp: readLineRaw_def Let_def dest!: updateSortedFlag_frame
        split: if_splits option.splits prod.splits)

text \<open>
  \<open>updatePseudoTags\<close>: the number of lines read, the stream after the call and the
  messages; \<open>None\<close> when \<open>updateSortedFlag\<close> does not return.
\<close>

definition updatePseudoTags ::
  "options \<Rightarrow> stream \<Rightarrow> (nat \<times> stream \<times> message list) option" where
  "updatePseudoTags opts fp =
     (let startOfLine = (case fgetpos fp of Some p \<Rightarrow> p | None \<Rightarrow> 0);
          (line, fp1) = readLineRaw fp
      in updatePseudoTags_loop opts fp1 startOfLine line 0 [])"

subsection \<open>Inputs of the examples\<close>

definition unsortedOptions :: options where
  "unsortedOptions = \<lparr>opt_tagFileFormat = 2, opt_sorted = SO_UNSORTED, opt_xref = False,
     opt_etags = False, opt_append = True, opt_backward = False, opt_patternLengthLimit = 96,
     opt_lineDirectives = False, opt_putFieldPrefix = False, opt_fatalWarnings = False,
     opt_customXfmt = None, opt_tagFileName = ''tags'', opt_outputEncoding = None,
     opt_locate = EX_MIX\<rparr>"

text \<open>
  Two tag files of one line, the \<open>TAG_FILE_SORTED\<close> line as the program writes it for a
  file sorted with case folded and for a sorted file, read to the end.
\<close>

definition foldsortedHeader :: stream where
  "foldsortedHeader =
     \<lparr>contents = sortedPseudoTagLine (unsortedOptions\<lparr>opt_sorted := SO_FOLDSORTED\<rparr>),
      pos = 55, seekable = True\<rparr>"

definition sortedHeader :: stream where
  "sortedHeader =
     \<lparr>contents = sortedPseudoTagLine (unsortedOptions\<lparr>opt_sorted := SO_SORTED\<rparr>),
      pos = 55, seekable = True\<rparr>"

text \<open>
  A sorted tag file with a tag \<open>!A\<close> of the file \<open>1.c\<close>, which sorts before the pseudo-tags.
\<close>

definition tagsFileBangA :: string where
  "tagsFileBangA =
     ''!A'' @ [TAB] @ ''1.c'' @ [TAB] @ ''/^x$/'' @ [NEWLINE]
     @ sortedPseudoTagLine (unsortedOptions\<lparr>opt_sorted := SO_SORTED\<rparr>)"

subsection \<open>Kinds, tags and the tag file (the structures of kind.h and entry.h)\<close>

text \<open>
  The headers are not among the sources; the members are those that the functions of
  entry.c and field.c read and write. The name and the input file name of a tag are
  never \<open>NULL\<close>: \<open>makeTagEntry\<close> reads \<open>name [0]\<close> and \<open>recordTagEntryInQueue\<close> copies
  both without a test. The position \<open>fpos_t\<close> of a tag is a byte offset.
\<close>

record roleDesc =
  rd_enabled :: bool
  rd_name :: string
  rd_description :: string

record kindOption =
  k_enabled :: bool
  k_letter :: char
  k_name :: "string option"
  k_description :: "string option"
  k_referenceOnly :: bool
  k_roles :: "roleDesc list"

record extensionFieldsT =
  access :: "string option"
  fileScope :: "string option"
  implementation :: "string option"
  inheritance :: "string option"
  scopeKind :: "kindOption option"
  scopeName :: "string option"
  scopeIndex :: nat
  signature :: "string option"
  typeRef0 :: "string option"
  typeRef1 :: "string option"
  roleIndex :: int

record tagEntryInfo =
  lineNumberEntry :: bool
  isFileScope :: bool
  isFileEntry :: bool
  truncateLine :: bool
  placeholder :: bool
  lineNumber :: nat
  pattern :: "string option"
  filePosition :: nat
  language :: "string option"
  inputFileName :: string
  name :: string
  kind :: "kindOption option"
  extensionFields :: extensionFieldsT
  sourceLanguage :: "string option"
  sourceFileName :: "string option"
  sourceLineNumberDifference :: int

definition SCOPE_NIL :: nat where "SCOPE_NIL = 0"
definition ROLE_INDEX_DEFINITION :: int where "ROLE_INDEX_DEFINITION = 0"

text \<open>
  \<open>TagFile\<close>, with the two static variables of \<open>makePatternStringCommon\<close> and the
  messages printed so far. \<open>tf_fp\<close> is the sequence of bytes written through
  \<open>TagFile.fp\<close>, \<open>tf_etags_fp\<close> the same for \<open>TagFile.etags.fp\<close>; \<open>tf_ferror\<close> is the error
  indicator of the stream, which the environment sets. The cork depth is an
  \<open>unsigned int\<close>; the queue is the array \<open>corkQueue.queue\<close> with its capacity
  \<open>tf_length\<close> and the number \<open>tf_count\<close> of slots in use.
\<close>

record tagFile =
  tf_fp :: string
  tf_ferror :: bool
  tf_numTags_added :: nat
  tf_numTags_prev :: nat
  tf_max_tag :: nat
  tf_max_line :: nat
  tf_etags_fp :: string
  tf_etags_byteCount :: nat
  tf_cork :: "32 word"
  tf_queue :: "tagEntryInfo list"
  tf_length :: nat
  tf_count :: nat
  tf_patternCacheValid :: bool
  tf_cached_pattern :: string
  tf_cached_location :: nat
  tf_messages :: "message list"

text \<open>
  What the functions ask of the rest of the program and of the file system: the
  destination (\<open>isDestinationStdout\<close>, the bytes of the file named by the options if it
  exists, whether it can be opened for reading and for writing), the state of the
  pseudo-tags extra, the macros of \<open>ctags.h\<close>, and the input file (the predicate of the
  language on null tags, the name of the file, the line at a saved position and its
  offset, the line found by line number and pattern), the number that \<open>fputs\<close> returns
  on success, the text that \<open>fmtPrint\<close> of \<open>fmt.c\<close> prints for a format and a tag, and
  the macro \<open>CTAGS_FIELD_PREFIX\<close> of \<open>field.h\<close>.
\<close>

record environment =
  env_stdout :: bool
  env_destination :: "string option"
  env_readable :: bool
  env_writable :: bool
  env_seekable :: bool
  env_pseudoTags :: bool
  env_AUTHOR_NAME :: string
  env_PROGRAM_NAME :: string
  env_PROGRAM_URL :: string
  env_PROGRAM_VERSION :: string
  env_repoinfo :: "string option"
  env_allowNullTag :: bool
  env_inputFileName :: string
  env_readLineFromBypass :: "nat \<Rightarrow> string option"
  env_fputs :: nat
  env_seekValue :: "nat \<Rightarrow> int"
  env_readLineFromBypassSlow :: "nat \<Rightarrow> string \<Rightarrow> (string \<times> int) option"
  env_fmtPrint :: "string \<Rightarrow> tagEntryInfo \<Rightarrow> string"
  env_CTAGS_FIELD_PREFIX :: string

subsection \<open>Errors\<close>

text \<open>
  \<open>Fatal\<close> is \<open>error (FATAL, ...)\<close> with its message. \<open>NullPointer\<close> and \<open>OutOfRange\<close> stand
  for a read through a \<open>NULL\<close> pointer and outside an array, \<open>NoReturn\<close> for a loop that
  does not end, \<open>Unmodelled\<close> for a call that leaves the part of the program modelled
  here.
\<close>

datatype error =
    Fatal string
  | NullPointer
  | OutOfRange
  | NoReturn
  | Unmodelled

definition bindE :: "error + 'a \<Rightarrow> ('a \<Rightarrow> error + 'b) \<Rightarrow> error + 'b" where
  "bindE m f = (case m of Inl e \<Rightarrow> Inl e | Inr x \<Rightarrow> f x)"

subsection \<open>Decimal numbers (\<open>%u\<close>, \<open>%lu\<close>, \<open>%ld\<close>)\<close>

definition digit :: "nat \<Rightarrow> char" where
  "digit d = char_of (48 + d)"

fun dec :: "nat \<Rightarrow> string" where
  "dec n = (if n < 10 then [digit n] else dec (n div 10) @ [digit (n mod 10)])"

declare dec.simps [simp del]

definition dec_int :: "int \<Rightarrow> string" where
  "dec_int i = (if i < 0 then ''-'' @ dec (nat (- i)) else dec (nat i))"

subsection \<open>Writing the pseudo-tags (entry.c)\<close>

definition abort_if_ferror :: "tagFile \<Rightarrow> error + tagFile" where
  "abort_if_ferror tf =
     (if tf_ferror tf then Inl (Fatal ''cannot write tag file'') else Inr tf)"

definition rememberMaxLengths :: "nat \<Rightarrow> nat \<Rightarrow> tagFile \<Rightarrow> tagFile" where
  "rememberMaxLengths nameLength lineLength tf =
     (let tf1 = (if nameLength > tf_max_tag tf then tf\<lparr>tf_max_tag := nameLength\<rparr> else tf)
      in if lineLength > tf_max_line tf1 then tf1\<lparr>tf_max_line := lineLength\<rparr> else tf1)"

definition writePseudoTag ::
  "string \<Rightarrow> string \<Rightarrow> string \<Rightarrow> string option \<Rightarrow> tagFile \<Rightarrow> error + tagFile" where
  "writePseudoTag tagName fileName pat lang tf =
     (let text = pseudoTagLine tagName fileName pat lang;
          tf1 = tf\<lparr>tf_fp := tf_fp tf @ text\<rparr>
      in bindE (abort_if_ferror tf1) (\<lambda>tf2.
           Inr (rememberMaxLengths (length tagName) (length text)
                  (tf2\<lparr>tf_numTags_added := tf_numTags_added tf2 + 1\<rparr>))))"

definition addPseudoTags :: "options \<Rightarrow> environment \<Rightarrow> tagFile \<Rightarrow> error + tagFile" where
  "addPseudoTags opts env tf =
     (if \<not> opt_xref opts
      then (let format = dec (opt_tagFileFormat opts);
                formatComment =
                  (if opt_tagFileFormat opts = 1 then ''original ctags format''
                   else if opt_tagFileFormat opts = 2
                   then ''extended format; --format=1 will not append ;'' @ [CHR 0x22]
                        @ '' to lines''
                   else ''unknown format'')
            in bindE (writePseudoTag ''TAG_FILE_FORMAT'' format formatComment None tf) (\<lambda>tf.
               bindE (writePseudoTag ''TAG_FILE_SORTED'' [sortedFlag opts]
                        ''0=unsorted, 1=sorted, 2=foldcase'' None tf) (\<lambda>tf.
               bindE (writePseudoTag ''TAG_PROGRAM_AUTHOR'' (env_AUTHOR_NAME env) [] None tf) (\<lambda>tf.
               bindE (writePseudoTag ''TAG_PROGRAM_NAME'' (env_PROGRAM_NAME env)
                        ''Derived from Exuberant Ctags'' None tf) (\<lambda>tf.
               bindE (writePseudoTag ''TAG_PROGRAM_URL'' (env_PROGRAM_URL env)
                        ''official site'' None tf) (\<lambda>tf.
               bindE (writePseudoTag ''TAG_PROGRAM_VERSION'' (env_PROGRAM_VERSION env)
                        (case env_repoinfo env of Some r \<Rightarrow> r | None \<Rightarrow> []) None tf) (\<lambda>tf.
               (case opt_outputEncoding opts of
                  Some enc \<Rightarrow> writePseudoTag ''TAG_FILE_ENCODING'' enc [] None tf
                | None \<Rightarrow> Inr tf))))))))
      else Inr tf)"

subsection \<open>Validation of an existing tag file and \<open>openTagFile\<close> (entry.c)\<close>

text \<open>
  A conversion \<open>%[...]\<close> of \<open>sscanf\<close>: the longest prefix of characters of the set, which
  must not be empty, and the rest of the input.
\<close>

definition scanset :: "(char \<Rightarrow> bool) \<Rightarrow> string \<Rightarrow> (string \<times> string) option" where
  "scanset p s =
     (let m = takeWhile p s in if m = [] then None else Some (m, drop (length m) s))"

definition isdigit :: "char \<Rightarrow> bool" where
  "isdigit c = (c \<in> set ''0123456789'')"

text \<open>
  \<open>isValidTagAddress\<close>. \<open>strchr ("/?", c)\<close> also finds the terminating NUL of \<open>"/?"\<close>.
\<close>

definition isValidTagAddress :: "string \<Rightarrow> bool" where
  "isValidTagAddress excmd =
     (if char_at excmd 0 = CHR ''/'' \<or> char_at excmd 0 = CHR ''?'' \<or> char_at excmd 0 = NUL
      then True
      else (case scanset (\<lambda>c. c \<noteq> CHR '';'' \<and> c \<noteq> NEWLINE) excmd of
              None \<Rightarrow> False
            | Some (address, _) \<Rightarrow> list_all isdigit address))"

text \<open>
  \<open>sscanf (line, "%[^\t]%[\t]%[^\t]%[\t]%[^\r\n]", ...)\<close>: the fields assigned, in
  order; their number is \<open>numFields\<close>.
\<close>

definition sscanf_fields :: "string \<Rightarrow> string list" where
  "sscanf_fields line =
     (case scanset (\<lambda>c. c \<noteq> TAB) line of
        None \<Rightarrow> []
      | Some (tag, r1) \<Rightarrow>
     (case scanset (\<lambda>c. c = TAB) r1 of
        None \<Rightarrow> [tag]
      | Some (tab1, r2) \<Rightarrow>
     (case scanset (\<lambda>c. c \<noteq> TAB) r2 of
        None \<Rightarrow> [tag, tab1]
      | Some (src_file, r3) \<Rightarrow>
     (case scanset (\<lambda>c. c = TAB) r3 of
        None \<Rightarrow> [tag, tab1, src_file]
      | Some (tab2, r4) \<Rightarrow>
     (case scanset (\<lambda>c. c \<noteq> CRETURN \<and> c \<noteq> NEWLINE) r4 of
        None \<Rightarrow> [tag, tab1, src_file, tab2]
      | Some (excmd, _) \<Rightarrow> [tag, tab1, src_file, tab2, excmd])))))"

text \<open>
  \<open>isCtagsLine\<close>. \<open>xMalloc\<close> does not return \<open>NULL\<close>, so the first branch of the source is
  never taken.
\<close>

definition isCtagsLine :: "string \<Rightarrow> bool" where
  "isCtagsLine line =
     (case sscanf_fields line of
        [tag, tab1, src_file, tab2, excmd] \<Rightarrow>
          length tab1 = 1 \<and> length tab2 = 1 \<and> char_at tag 0 \<noteq> CHR ''#''
          \<and> char_at src_file (length src_file - 1) \<noteq> CHR '';''
          \<and> isValidTagAddress excmd
      | _ \<Rightarrow> False)"

definition isEtagsLine :: "string \<Rightarrow> bool" where
  "isEtagsLine line =
     (if char_at line 0 = FORMFEED
      then char_at line 1 = NEWLINE \<or> char_at line 1 = CRETURN
      else False)"

text \<open>
  The outcome of \<open>fopen (filename, "rb")\<close>: no such file, another error, or a stream.
\<close>

datatype fopen_result = ENOENT | OtherErrno | Opened stream

definition isTagFile :: "fopen_result \<Rightarrow> bool" where
  "isTagFile r =
     (case r of
        ENOENT \<Rightarrow> True
      | OtherErrno \<Rightarrow> False
      | Opened fp \<Rightarrow>
          (case readLineRaw fp of
             (None, _) \<Rightarrow> True
           | (Some line, _) \<Rightarrow> isCtagsLine line \<or> isEtagsLine line))"

definition fopen_rb :: "environment \<Rightarrow> fopen_result" where
  "fopen_rb env =
     (case env_destination env of
        None \<Rightarrow> ENOENT
      | Some bytes \<Rightarrow>
          if env_readable env
          then Opened \<lparr>contents = bytes, pos = 0, seekable = env_seekable env\<rparr>
          else OtherErrno)"

definition refusal :: "string \<Rightarrow> error" where
  "refusal fileName =
     Fatal ([CHR 0x22] @ fileName @ [CHR 0x22]
            @ '' doesn't look like a tag file; I refuse to overwrite it.'')"

text \<open>
  \<open>openTagFile\<close>: the tag file state after the call and the bytes of the destination
  that the stream starts after (none for a file opened with \<open>"w"\<close>, the file with its
  header rewritten in append mode). The temporary file of the standard output
  destination is taken to open.
\<close>

definition openTagFile ::
  "options \<Rightarrow> environment \<Rightarrow> tagFile \<Rightarrow> error + (tagFile \<times> string)" where
  "openTagFile opts env tf =
     (if env_stdout env
      then (if env_pseudoTags env
            then bindE (addPseudoTags opts env tf) (\<lambda>tf1. Inr (tf1, []))
            else Inr (tf, []))
      else (let fileExists = (env_destination env \<noteq> None) in
            if fileExists \<and> \<not> isTagFile (fopen_rb env)
            then Inl (refusal (opt_tagFileName opts))
            else if opt_etags opts
            then (if \<not> env_writable env then Inl (Fatal ''cannot open tag file'')
                  else (case env_destination env of
                          Some bytes \<Rightarrow> Inr (tf, if opt_append opts then bytes else [])
                        | None \<Rightarrow> Inr (tf, [])))
            else (case env_destination env of
                    Some bytes \<Rightarrow>
                      if opt_append opts
                      then (if \<not> (env_readable env \<and> env_writable env)
                            then Inl (Fatal ''cannot open tag file'')
                            else (case updatePseudoTags opts
                                         \<lparr>contents = bytes, pos = 0, seekable = env_seekable env\<rparr> of
                                    None \<Rightarrow> Inl NoReturn
                                  | Some (n, fp', msgs) \<Rightarrow>
                                      Inr (tf\<lparr>tf_numTags_prev := n,
                                              tf_messages := tf_messages tf @ msgs\<rparr>,
                                           contents fp')))
                      else (if \<not> env_writable env then Inl (Fatal ''cannot open tag file'')
                            else if env_pseudoTags env
                            then bindE (addPseudoTags opts env tf) (\<lambda>tf1. Inr (tf1, []))
                            else Inr (tf, []))
                  | None \<Rightarrow>
                      (if \<not> env_writable env then Inl (Fatal ''cannot open tag file'')
                       else if env_pseudoTags env
                       then bindE (addPseudoTags opts env tf) (\<lambda>tf1. Inr (tf1, []))
                       else Inr (tf, [])))))"

text \<open>The first line of a file, as \<open>isTagFile\<close> reads it.\<close>

definition firstLine :: "string \<Rightarrow> string option" where
  "firstLine bytes = fst (readLineRaw \<lparr>contents = bytes, pos = 0, seekable = True\<rparr>)"

text \<open>\<open>TagFile\<close> as its initializer in entry.c sets it.\<close>

definition TagFile_initial :: tagFile where
  "TagFile_initial =
     \<lparr>tf_fp = [], tf_ferror = False, tf_numTags_added = 0, tf_numTags_prev = 0,
      tf_max_tag = 0, tf_max_line = 0, tf_etags_fp = [], tf_etags_byteCount = 0,
      tf_cork = 0, tf_queue = [], tf_length = 0, tf_count = 0,
      tf_patternCacheValid = False, tf_cached_pattern = [], tf_cached_location = 0,
      tf_messages = []\<rparr>"

text \<open>
  An environment with no destination file yet, and three destinations: a tag file of
  one line that cannot be opened for reading, a C source file, and an empty file.
\<close>

definition exampleEnv :: environment where
  "exampleEnv =
     \<lparr>env_stdout = False, env_destination = None, env_readable = True, env_writable = True,
      env_seekable = True, env_pseudoTags = True, env_AUTHOR_NAME = ''Universal Ctags Team'',
      env_PROGRAM_NAME = ''Universal Ctags'', env_PROGRAM_URL = ''https://ctags.io/'',
      env_PROGRAM_VERSION = ''0.0.0'', env_repoinfo = None, env_allowNullTag = False,
      env_inputFileName = ''a.c'', env_readLineFromBypass = (\<lambda>p. None),
      env_fputs = 1, env_seekValue = int, env_readLineFromBypassSlow = (\<lambda>n p. None),
      env_fmtPrint = (\<lambda>f t. name t), env_CTAGS_FIELD_PREFIX = ''UCTAGS''\<rparr>"

definition oneTagFile :: string where
  "oneTagFile = ''main'' @ [TAB] @ ''a.c'' @ [TAB] @ ''1'' @ [NEWLINE]"

definition unreadableEnv :: environment where
  "unreadableEnv = exampleEnv\<lparr>env_destination := Some oneTagFile, env_readable := False\<rparr>"

definition sourceFileEnv :: environment where
  "sourceFileEnv = exampleEnv\<lparr>env_destination := Some (''int a;'' @ [TAB] @ ''/* c */'' @ [NEWLINE])\<rparr>"

definition emptyFileEnv :: environment where
  "emptyFileEnv = exampleEnv\<lparr>env_destination := Some []\<rparr>"

subsection \<open>The pattern of a tag (entry.c)\<close>

text \<open>The delimiter of the search command: \<open>Option.backward ? '?' : '/'\<close>.\<close>

definition searchChar :: "options \<Rightarrow> char" where
  "searchChar opts = (if opt_backward opts then CHR ''?'' else CHR ''/'')"

text \<open>
  \<open>appendInputLine\<close>: the characters given to \<open>putc_func\<close>, in order, the length
  returned and the flag \<open>omitted\<close>. \<open>len\<close> is the variable \<open>length\<close> of the source, and
  \<open>next\<close> is \<open>*(p + 1)\<close>, the terminating NUL after the last character.
\<close>

fun appendInputLine_loop :: "options \<Rightarrow> string \<Rightarrow> nat \<Rightarrow> string \<times> nat \<times> bool" where
  "appendInputLine_loop opts [] len = ([], len, False)"
| "appendInputLine_loop opts (c # rest) len =
     (let next = char_at rest 0 in
      if c = CRETURN \<or> c = NEWLINE then ([], len, False)
      else if len \<ge> opt_patternLengthLimit opts then ([], len, True)
      else if c = BACKSLASH \<or> c = searchChar opts
              \<or> (c = CHR ''$'' \<and> (next = NEWLINE \<or> next = CRETURN))
      then (case appendInputLine_loop opts rest (len + 2) of
              (out, n, omitted) \<Rightarrow> (BACKSLASH # c # out, n, omitted))
      else (case appendInputLine_loop opts rest (len + 1) of
              (out, n, omitted) \<Rightarrow> (c # out, n, omitted)))"

definition appendInputLine :: "options \<Rightarrow> string \<Rightarrow> string \<times> nat \<times> bool" where
  "appendInputLine opts line = appendInputLine_loop opts line 0"

text \<open>\<open>strstr\<close>: the offset of the first occurrence of the token.\<close>

fun strstr :: "string \<Rightarrow> string \<Rightarrow> nat option" where
  "strstr [] token = (if token = [] then Some 0 else None)"
| "strstr (c # cs) token =
     (if prefix token (c # cs) then Some 0 else map_option Suc (strstr cs token))"

definition truncateTagLine :: "string \<Rightarrow> string \<Rightarrow> bool \<Rightarrow> string" where
  "truncateTagLine line token discardNewline =
     (case strstr line token of
        None \<Rightarrow> line
      | Some i \<Rightarrow>
          (let p = i + length token in
           if p < length line \<and> \<not> (char_at line p = NEWLINE \<and> discardNewline)
           then take (p + 1) line
           else take p line))"

text \<open>
  \<open>makePatternStringCommon\<close>: the characters given to the output, the length returned
  and the tag file state (the cache). \<open>puts_result\<close> is what \<open>puts_func\<close> returns for a
  string: its length for a string buffer, the result of \<open>fputs\<close> for a file.
  \<open>readLineFromBypass\<close> is not among the sources; the environment gives the line at
  the position of the tag. The source reads \<open>line [line_len - 1]\<close>, which is outside
  the line when the line is empty.
\<close>

definition makePatternStringCommon ::
  "options \<Rightarrow> environment \<Rightarrow> (string \<Rightarrow> nat) \<Rightarrow> tagEntryInfo \<Rightarrow> tagFile
     \<Rightarrow> error + (string \<times> nat \<times> tagFile)" where
  "makePatternStringCommon opts env puts_result tag tf =
     (if tf_patternCacheValid tf \<and> \<not> truncateLine tag
         \<and> filePosition tag = tf_cached_location tf
      then Inr (tf_cached_pattern tf, puts_result (tf_cached_pattern tf), tf)
      else (case env_readLineFromBypass env (filePosition tag) of
              None \<Rightarrow> Inl (Fatal (''bad tag in '' @ env_inputFileName env))
            | Some line0 \<Rightarrow>
                (let line = (if truncateLine tag then truncateTagLine line0 (name tag) False
                             else line0);
                     line_len = length line
                 in if line_len = 0 then Inl OutOfRange
                    else (let terminator = (if line ! (line_len - 1) = NEWLINE then ''$'' else []);
                              making_cache = \<not> truncateLine tag;
                              (body, n, omitted) = appendInputLine opts line;
                              term = (if omitted then [] else terminator);
                              text = [searchChar opts, CHR ''^''] @ body @ term @ [searchChar opts];
                              len = 1 + 1 + n
                                    + (if making_cache then length term else puts_result term) + 1
                          in if making_cache
                             then Inr (text, len,
                                       tf\<lparr>tf_cached_pattern := text,
                                          tf_cached_location := filePosition tag,
                                          tf_patternCacheValid := True\<rparr>)
                             else Inr (text, len, tf)))))"

definition makePatternString ::
  "options \<Rightarrow> environment \<Rightarrow> tagEntryInfo \<Rightarrow> tagFile \<Rightarrow> error + (string \<times> tagFile)" where
  "makePatternString opts env tag tf =
     bindE (makePatternStringCommon opts env length tag tf)
       (\<lambda>(text, n, tf'). Inr (text, tf'))"

definition writePatternEntry ::
  "options \<Rightarrow> environment \<Rightarrow> tagEntryInfo \<Rightarrow> tagFile \<Rightarrow> error + (nat \<times> tagFile)" where
  "writePatternEntry opts env tag tf =
     bindE (makePatternStringCommon opts env (\<lambda>s. env_fputs env) tag tf)
       (\<lambda>(text, n, tf'). Inr (n, tf'\<lparr>tf_fp := tf_fp tf' @ text\<rparr>))"

text \<open>
  The words of the specification for the pattern: a character of the line is written
  as it is, or after a backslash when it is a backslash, the delimiter, or a \<open>$\<close> in
  front of a line end. \<open>quotedLine\<close> is the list of the characters of the line before
  its first line end, each one quoted by this rule.
\<close>

definition quoteChar :: "options \<Rightarrow> char \<Rightarrow> char \<Rightarrow> string" where
  "quoteChar opts c next =
     (if c = BACKSLASH \<or> c = searchChar opts
         \<or> (c = CHR ''$'' \<and> (next = NEWLINE \<or> next = CRETURN))
      then [BACKSLASH, c] else [c])"

definition quotedLine :: "options \<Rightarrow> string \<Rightarrow> string list" where
  "quotedLine opts line =
     map (\<lambda>i. quoteChar opts (line ! i) (char_at line (i + 1)))
         [0 ..< length (takeWhile (\<lambda>c. c \<noteq> CRETURN \<and> c \<noteq> NEWLINE) line)]"


subsection \<open>Construction of a tag entry (entry.c)\<close>

text \<open>
  The entry after \<open>memset (e, 0, sizeof (tagEntryInfo))\<close>; the name and the input file
  name, \<open>NULL\<close> there, are set by \<open>initTagEntryFull\<close> right after.
\<close>

definition zeroExtensionFields :: extensionFieldsT where
  "zeroExtensionFields =
     \<lparr>access = None, fileScope = None, implementation = None, inheritance = None,
      scopeKind = None, scopeName = None, scopeIndex = 0, signature = None,
      typeRef0 = None, typeRef1 = None, roleIndex = 0\<rparr>"

definition zeroTagEntry :: tagEntryInfo where
  "zeroTagEntry =
     \<lparr>lineNumberEntry = False, isFileScope = False, isFileEntry = False,
      truncateLine = False, placeholder = False, lineNumber = 0, pattern = None,
      filePosition = 0, language = None, inputFileName = [], name = [], kind = None,
      extensionFields = zeroExtensionFields, sourceLanguage = None, sourceFileName = None,
      sourceLineNumberDifference = 0\<rparr>"

definition initTagEntryFull ::
  "options \<Rightarrow> string \<Rightarrow> nat \<Rightarrow> string option \<Rightarrow> nat \<Rightarrow> string \<Rightarrow> kindOption option
     \<Rightarrow> int \<Rightarrow> string option \<Rightarrow> string option \<Rightarrow> int \<Rightarrow> tagEntryInfo" where
  "initTagEntryFull opts nm lineNo lang position inputFile knd role sourceFile sourceLang
       sourceLineNumberDiff =
     zeroTagEntry
       \<lparr>lineNumberEntry := (opt_locate opts = EX_LINENUM),
        lineNumber := lineNo,
        language := lang,
        filePosition := position,
        inputFileName := inputFile,
        name := nm,
        extensionFields := zeroExtensionFields\<lparr>scopeIndex := SCOPE_NIL, roleIndex := role\<rparr>,
        kind := knd,
        sourceLanguage := sourceLang,
        sourceFileName := sourceFile,
        sourceLineNumberDifference := sourceLineNumberDiff\<rparr>"

text \<open>
  A function kind and a class kind, and the tag \<open>main\<close> of the first scenario of the
  specification: file \<open>a.c\<close>, line 1, at the start of the file.
\<close>

definition functionKind :: kindOption where
  "functionKind =
     \<lparr>k_enabled = True, k_letter = CHR ''f'', k_name = Some ''function'',
      k_description = Some ''functions'', k_referenceOnly = False, k_roles = []\<rparr>"


definition mainTag :: tagEntryInfo where
  "mainTag =
     initTagEntryFull unsortedOptions ''main'' 1 (Some ''C'') 0 ''a.c'' (Some functionKind)
       ROLE_INDEX_DEFINITION None None 0"




subsection \<open>The field descriptors that entry.c reads (field.c, the version with \<open>fieldDesc\<close>)\<close>

text \<open>
  The enumeration \<open>fieldType\<close> of \<open>field.h\<close> names the entries of the table
  \<open>fieldDescs\<close>; the header is not among the sources, and the enumerators are matched
  to the entries by their letters. The table is the initial state; the flags
  \<open>enabled\<close> change with the options, so the functions below take the flags as a
  parameter \<open>en\<close>, and the names from the table.
\<close>

datatype fieldId =
    FIELD_NAME | FIELD_INPUT_FILE | FIELD_PATTERN | FIELD_COMPACT_INPUT_LINE
  | FIELD_ACCESS | FIELD_FILE_SCOPE | FIELD_INHERITANCE | FIELD_KIND_LONG | FIELD_KIND
  | FIELD_LANGUAGE | FIELD_IMPLEMENTATION | FIELD_LINE_NUMBER | FIELD_ROLE | FIELD_REFMARK
  | FIELD_SIGNATURE | FIELD_SCOPE | FIELD_TYPE_REF | FIELD_KIND_KEY | FIELD_SCOPE_KEY

record fieldDesc =
  fdesc_enabled :: bool
  fdesc_basic :: bool
  fdesc_letter :: char
  fdesc_name :: "string option"
  fdesc_nameWithPrefix :: "string option"

definition DEFINE_FIELD_FULL ::
  "char \<Rightarrow> string option \<Rightarrow> bool \<Rightarrow> bool \<Rightarrow> string option \<Rightarrow> fieldDesc" where
  "DEFINE_FIELD_FULL L N V B NWP =
     \<lparr>fdesc_enabled = V, fdesc_basic = B, fdesc_letter = L, fdesc_name = N,
      fdesc_nameWithPrefix = NWP\<rparr>"

fun fieldDescs :: "string \<Rightarrow> fieldId \<Rightarrow> fieldDesc" where
  "fieldDescs P FIELD_NAME = DEFINE_FIELD_FULL (CHR ''N'') (Some ''name'') True True (Some ''name'')"
| "fieldDescs P FIELD_INPUT_FILE =
     DEFINE_FIELD_FULL (CHR ''F'') (Some ''input'') True True (Some ''input'')"
| "fieldDescs P FIELD_PATTERN =
     DEFINE_FIELD_FULL (CHR ''P'') (Some ''pattern'') True True (Some ''pattern'')"
| "fieldDescs P FIELD_COMPACT_INPUT_LINE =
     DEFINE_FIELD_FULL (CHR ''C'') (Some ''compact'') False False (Some ''compact'')"
| "fieldDescs P FIELD_ACCESS =
     DEFINE_FIELD_FULL (CHR ''a'') (Some ''access'') False False (Some ''access'')"
| "fieldDescs P FIELD_FILE_SCOPE =
     DEFINE_FIELD_FULL (CHR ''f'') (Some ''file'') True False (Some ''file'')"
| "fieldDescs P FIELD_INHERITANCE =
     DEFINE_FIELD_FULL (CHR ''i'') (Some ''inherits'') False False (Some ''inherits'')"
| "fieldDescs P FIELD_KIND_LONG = DEFINE_FIELD_FULL (CHR ''K'') None False False None"
| "fieldDescs P FIELD_KIND = DEFINE_FIELD_FULL (CHR ''k'') None True False None"
| "fieldDescs P FIELD_LANGUAGE =
     DEFINE_FIELD_FULL (CHR ''l'') (Some ''language'') False False (Some ''language'')"
| "fieldDescs P FIELD_IMPLEMENTATION =
     DEFINE_FIELD_FULL (CHR ''m'') (Some ''implementation'') False False (Some ''implementation'')"
| "fieldDescs P FIELD_LINE_NUMBER =
     DEFINE_FIELD_FULL (CHR ''n'') (Some ''line'') False False (Some ''line'')"
| "fieldDescs P FIELD_ROLE =
     DEFINE_FIELD_FULL (CHR ''r'') (Some ''role'') False False (Some (P @ ''role''))"
| "fieldDescs P FIELD_REFMARK = DEFINE_FIELD_FULL (CHR ''R'') None False False None"
| "fieldDescs P FIELD_SIGNATURE =
     DEFINE_FIELD_FULL (CHR ''S'') (Some ''signature'') False False (Some ''signature'')"
| "fieldDescs P FIELD_SCOPE = DEFINE_FIELD_FULL (CHR ''s'') None True False None"
| "fieldDescs P FIELD_TYPE_REF =
     DEFINE_FIELD_FULL (CHR ''t'') (Some ''typeref'') True False (Some ''typeref'')"
| "fieldDescs P FIELD_KIND_KEY =
     DEFINE_FIELD_FULL (CHR ''z'') (Some ''kind'') False False (Some ''kind'')"
| "fieldDescs P FIELD_SCOPE_KEY =
     DEFINE_FIELD_FULL (CHR ''Z'') (Some ''scope'') False False (Some (P @ ''scope''))"

text \<open>The flags \<open>enabled\<close> of the table as it is initialized.\<close>

definition initialEnabled :: "fieldId \<Rightarrow> bool" where
  "initialEnabled f = fdesc_enabled (fieldDescs [] f)"

text \<open>\<open>getFieldName\<close>; \<open>P\<close> is the macro \<open>CTAGS_FIELD_PREFIX\<close>.\<close>

definition getFieldName :: "string \<Rightarrow> options \<Rightarrow> fieldId \<Rightarrow> string option" where
  "getFieldName P opts f =
     (if opt_putFieldPrefix opts then fdesc_nameWithPrefix (fieldDescs P f)
      else fdesc_name (fieldDescs P f))"

subsection \<open>Field renderers (field.c, the version with \<open>fieldDesc\<close>)\<close>

text \<open>
  A renderer returns the string that the caller prints. The messages of \<open>notice\<close> in
  \<open>renderEscapedName\<close> are not part of the model; its \<open>error (FATAL, "Aborting")\<close> under
  \<open>Option.fatalWarnings\<close> is.
\<close>

definition valueToXDigit :: "nat \<Rightarrow> char" where
  "valueToXDigit v = (if v \<ge> 10 then char_of (of_char (CHR ''A'') + (v - 10))
                      else char_of (of_char (CHR ''0'') + v))"

definition isControl :: "char \<Rightarrow> bool" where
  "isControl c = ((0 < (of_char c :: nat) \<and> (of_char c :: nat) \<le> 0x1F) \<or> c = CHR 0x7F)"

definition escapeChar :: "char \<Rightarrow> string" where
  "escapeChar c =
     (if isControl c \<or> c = BACKSLASH
      then (if c = CHR 0x07 then [BACKSLASH, CHR ''a'']
            else if c = CHR 0x08 then [BACKSLASH, CHR ''b'']
            else if c = CHR 0x09 then [BACKSLASH, CHR ''t'']
            else if c = CHR 0x0A then [BACKSLASH, CHR ''n'']
            else if c = CHR 0x0B then [BACKSLASH, CHR ''v'']
            else if c = CHR 0x0C then [BACKSLASH, CHR ''f'']
            else if c = CHR 0x0D then [BACKSLASH, CHR ''r'']
            else if c = BACKSLASH then [BACKSLASH, BACKSLASH]
            else [BACKSLASH, CHR ''x'', valueToXDigit ((of_char c :: nat) div 16),
                  valueToXDigit ((of_char c :: nat) mod 16)])
      else [c])"

definition renderEscapedString :: "string \<Rightarrow> string" where
  "renderEscapedString s = concat (map escapeChar s)"

text \<open>
  \<open>renderEscapedName\<close>: the loop stops at the first control character or backslash;
  the part before it is copied and the rest is escaped.
\<close>

definition renderEscapedName :: "options \<Rightarrow> string \<Rightarrow> error + string" where
  "renderEscapedName opts s =
     (let base = takeWhile (\<lambda>c. \<not> isControl c \<and> c \<noteq> BACKSLASH) s;
          rest = drop (length base) s
      in case rest of
           [] \<Rightarrow> Inr s
         | c # _ \<Rightarrow>
             if isControl c \<and> opt_fatalWarnings opts then Inl (Fatal ''Aborting'')
             else Inr (base @ renderEscapedString rest))"

definition WITH_DEFUALT_VALUE :: "string option \<Rightarrow> string" where
  "WITH_DEFUALT_VALUE str = (case str of Some s \<Rightarrow> s | None \<Rightarrow> ''-'')"

definition renderFieldName :: "options \<Rightarrow> tagEntryInfo \<Rightarrow> error + string" where
  "renderFieldName opts tag = renderEscapedName opts (name tag)"

definition renderFieldInput :: "options \<Rightarrow> tagEntryInfo \<Rightarrow> error + string" where
  "renderFieldInput opts tag =
     Inr (renderEscapedString
            (case sourceFileName tag of
               Some f \<Rightarrow> if opt_lineDirectives opts then f else inputFileName tag
             | None \<Rightarrow> inputFileName tag))"

definition renderFieldSignature :: "options \<Rightarrow> tagEntryInfo \<Rightarrow> error + string" where
  "renderFieldSignature opts tag =
     Inr (renderEscapedString (WITH_DEFUALT_VALUE (signature (extensionFields tag))))"

definition renderFieldScope :: "options \<Rightarrow> tagEntryInfo \<Rightarrow> error + string" where
  "renderFieldScope opts tag =
     renderEscapedName opts (WITH_DEFUALT_VALUE (scopeName (extensionFields tag)))"

definition renderFieldInherits :: "options \<Rightarrow> tagEntryInfo \<Rightarrow> error + string" where
  "renderFieldInherits opts tag =
     Inr (renderEscapedString (WITH_DEFUALT_VALUE (inheritance (extensionFields tag))))"

definition renderFieldTyperef :: "options \<Rightarrow> tagEntryInfo \<Rightarrow> error + string" where
  "renderFieldTyperef opts tag =
     renderEscapedName opts (WITH_DEFUALT_VALUE (typeRef1 (extensionFields tag)))"

definition renderFieldLineNumber :: "options \<Rightarrow> tagEntryInfo \<Rightarrow> error + string" where
  "renderFieldLineNumber opts tag =
     (let ln = int (lineNumber tag);
          ln' = (if opt_lineDirectives opts \<and> sourceLineNumberDifference tag \<noteq> 0
                 then ln + sourceLineNumberDifference tag else ln)
      in Inr (dec_int ln'))"

definition renderFieldLanguage :: "options \<Rightarrow> tagEntryInfo \<Rightarrow> error + string" where
  "renderFieldLanguage opts tag =
     Inr (WITH_DEFUALT_VALUE
            (case sourceLanguage tag of
               Some l \<Rightarrow> if opt_lineDirectives opts then Some l else language tag
             | None \<Rightarrow> language tag))"

text \<open>
  \<open>renderFieldRole\<close> reads \<open>tag->kind->roles [rindex]\<close>; the assertion on the index is
  the only guard.
\<close>

definition renderFieldRole :: "options \<Rightarrow> tagEntryInfo \<Rightarrow> error + string" where
  "renderFieldRole opts tag =
     (let rindex = roleIndex (extensionFields tag) in
      if rindex = ROLE_INDEX_DEFINITION then Inr []
      else (case kind tag of
              None \<Rightarrow> Inl NullPointer
            | Some k \<Rightarrow>
                if 0 \<le> rindex \<and> rindex < int (length (k_roles k))
                then Inr (rd_name (k_roles k ! nat rindex))
                else Inl OutOfRange))"

text \<open>
  \<open>escapeName (tag, ftype)\<close> calls the renderer of the descriptor. The cases are the
  field types that entry.c passes; the renderers of the other descriptors are not
  part of the model, which stops with \<open>Unmodelled\<close> there.
\<close>

fun escapeName :: "options \<Rightarrow> tagEntryInfo \<Rightarrow> fieldId \<Rightarrow> error + string" where
  "escapeName opts tag FIELD_NAME = renderFieldName opts tag"
| "escapeName opts tag FIELD_INPUT_FILE = renderFieldInput opts tag"
| "escapeName opts tag FIELD_LINE_NUMBER = renderFieldLineNumber opts tag"
| "escapeName opts tag FIELD_LANGUAGE = renderFieldLanguage opts tag"
| "escapeName opts tag FIELD_SCOPE = renderFieldScope opts tag"
| "escapeName opts tag FIELD_TYPE_REF = renderFieldTyperef opts tag"
| "escapeName opts tag FIELD_INHERITANCE = renderFieldInherits opts tag"
| "escapeName opts tag FIELD_SIGNATURE = renderFieldSignature opts tag"
| "escapeName opts tag FIELD_ROLE = renderFieldRole opts tag"
| "escapeName opts tag _ = Inl Unmodelled"

subsection \<open>The cork queue and the scope of a tag (entry.c)\<close>

definition getEntryInCorkQueue :: "tagFile \<Rightarrow> nat \<Rightarrow> tagEntryInfo option" where
  "getEntryInCorkQueue tf n =
     (if SCOPE_NIL < n \<and> n < tf_count tf then Some (tf_queue tf ! n) else None)"

text \<open>
  The first loop of \<open>getFullQualifiedScopeNameFromCorkQueue\<close>: it follows the scope
  indices and collects the escaped names of the entries that are not placeholders.
  Nothing in the code bounds the walk; the result is \<open>None\<close> when it does not end.
\<close>

partial_function (option) scopeNames ::
  "options \<Rightarrow> tagFile \<Rightarrow> tagEntryInfo option \<Rightarrow> string list \<Rightarrow> (error + string list) option"
  where
  "scopeNames opts tf scope queue =
     (case scope of
        None \<Rightarrow> Some (Inr queue)
      | Some sc \<Rightarrow>
          if \<not> placeholder sc
          then (case escapeName opts sc FIELD_NAME of
                  Inl e \<Rightarrow> Some (Inl e)
                | Inr v \<Rightarrow>
                    scopeNames opts tf
                      (getEntryInCorkQueue tf (scopeIndex (extensionFields sc))) (queue @ [v]))
          else scopeNames opts tf
                 (getEntryInCorkQueue tf (scopeIndex (extensionFields sc))) queue)"

declare scopeNames.simps [code]

text \<open>
  The second loop: the strings are taken from the end of the list, with a dot after
  each one but the last taken.
\<close>

function joinScopeNames :: "string list \<Rightarrow> string \<Rightarrow> string" where
  "joinScopeNames queue n =
     (let c = length queue in
      if c > 0
      then (let v = last queue;
                n1 = n @ v;
                n2 = (if c \<noteq> 1 then n1 @ ''.'' else n1)
            in joinScopeNames (butlast queue) n2)
      else n)"
  by pat_completeness auto
termination
  by (relation "measure (\<lambda>(queue, n). length queue)") auto

definition getFullQualifiedScopeNameFromCorkQueue ::
  "options \<Rightarrow> tagFile \<Rightarrow> tagEntryInfo option \<Rightarrow> (error + string) option" where
  "getFullQualifiedScopeNameFromCorkQueue opts tf inner_scope =
     map_option (map_sum id (\<lambda>queue. joinScopeNames queue []))
       (scopeNames opts tf inner_scope [])"

subsection \<open>The extension fields of a tag line (entry.c)\<close>

text \<open>
  Printing a string with \<open>%s\<close>: a \<open>NULL\<close> argument is an error of the caller.
\<close>

definition fmt_s :: "string option \<Rightarrow> error + string" where
  "fmt_s str = (case str of Some s \<Rightarrow> Inr s | None \<Rightarrow> Inl NullPointer)"

text \<open>
  The state of \<open>addExtensionFields\<close> between two of its statements: the flag \<open>first\<close> of
  the macro \<open>sep\<close> and the characters printed so far (the variable \<open>length\<close> is their
  number). \<open>printField\<close> is one \<open>fprintf\<close> with the format \<open>"%s\t..."\<close>: the separator,
  which is \<open>;"\<close> the first time and empty afterwards, a tab, and the rest.
\<close>

definition sep :: "bool \<Rightarrow> string" where
  "sep first = (if first then [CHR '';'', CHR 0x22] else [])"

definition printField :: "bool \<times> string \<Rightarrow> string \<Rightarrow> bool \<times> string" where
  "printField st rest = (case st of (first, out) \<Rightarrow> (False, out @ sep first @ [TAB] @ rest))"

definition addKind ::
  "string \<Rightarrow> options \<Rightarrow> (fieldId \<Rightarrow> bool) \<Rightarrow> tagEntryInfo \<Rightarrow> bool \<times> string
     \<Rightarrow> error + (bool \<times> string)" where
  "addKind P opts en tag st =
     (case kind tag of
        None \<Rightarrow> Inl NullPointer
      | Some k \<Rightarrow>
          bindE (if en FIELD_KIND_KEY then fmt_s (getFieldName P opts FIELD_KIND_KEY) else Inr [])
            (\<lambda>kindKey.
               let colon = (if en FIELD_KIND_KEY then '':'' else []) in
               if k_name k \<noteq> None \<and> (en FIELD_KIND_LONG \<or> (en FIELD_KIND \<and> kind tag = None))
               then bindE (fmt_s (k_name k)) (\<lambda>kn. Inr (printField st (kindKey @ colon @ kn)))
               else if kind tag \<noteq> None
                       \<and> (en FIELD_KIND \<or> (en FIELD_KIND_LONG \<and> k_name k = None))
               then Inr (printField st (kindKey @ colon @ [k_letter k]))
               else Inr st))"

definition addLine ::
  "string \<Rightarrow> options \<Rightarrow> (fieldId \<Rightarrow> bool) \<Rightarrow> tagEntryInfo \<Rightarrow> bool \<times> string
     \<Rightarrow> error + (bool \<times> string)" where
  "addLine P opts en tag st =
     (if en FIELD_LINE_NUMBER
      then bindE (fmt_s (getFieldName P opts FIELD_LINE_NUMBER)) (\<lambda>key.
             Inr (printField st (key @ '':'' @ dec (lineNumber tag))))
      else Inr st)"

definition addLanguage ::
  "string \<Rightarrow> options \<Rightarrow> (fieldId \<Rightarrow> bool) \<Rightarrow> tagEntryInfo \<Rightarrow> bool \<times> string
     \<Rightarrow> error + (bool \<times> string)" where
  "addLanguage P opts en tag st =
     (if en FIELD_LANGUAGE \<and> language tag \<noteq> None
      then bindE (fmt_s (getFieldName P opts FIELD_LANGUAGE)) (\<lambda>key.
           bindE (escapeName opts tag FIELD_LANGUAGE) (\<lambda>v.
             Inr (printField st (key @ '':'' @ v))))
      else Inr st)"

text \<open>
  The scope. In the second branch the name comes from the cork queue;
  \<open>scope->kind->name\<close> is read for the entry at the scope index, which may be \<open>NULL\<close>.
\<close>

definition addScope ::
  "string \<Rightarrow> options \<Rightarrow> (fieldId \<Rightarrow> bool) \<Rightarrow> tagFile \<Rightarrow> tagEntryInfo \<Rightarrow> bool \<times> string
     \<Rightarrow> error + (bool \<times> string)" where
  "addScope P opts en tf tag st =
     (if en FIELD_SCOPE
      then bindE (if en FIELD_SCOPE_KEY then fmt_s (getFieldName P opts FIELD_SCOPE_KEY)
                  else Inr [])
             (\<lambda>scopeKey.
                let colon = (if en FIELD_SCOPE_KEY then '':'' else []) in
                if scopeKind (extensionFields tag) \<noteq> None
                   \<and> scopeName (extensionFields tag) \<noteq> None
                then (case scopeKind (extensionFields tag) of
                        None \<Rightarrow> Inl NullPointer
                      | Some sk \<Rightarrow>
                          bindE (fmt_s (k_name sk)) (\<lambda>kn.
                          bindE (escapeName opts tag FIELD_SCOPE) (\<lambda>v.
                            Inr (printField st (scopeKey @ colon @ kn @ '':'' @ v)))))
                else if scopeIndex (extensionFields tag) \<noteq> SCOPE_NIL \<and> tf_count tf > 0
                then (let scope = getEntryInCorkQueue tf (scopeIndex (extensionFields tag)) in
                      case getFullQualifiedScopeNameFromCorkQueue opts tf scope of
                        None \<Rightarrow> Inl NoReturn
                      | Some r \<Rightarrow>
                          bindE r (\<lambda>full_qualified_scope_name.
                            case scope of
                              None \<Rightarrow> Inl NullPointer
                            | Some sc \<Rightarrow>
                                (case kind sc of
                                   None \<Rightarrow> Inl NullPointer
                                 | Some k \<Rightarrow>
                                     bindE (fmt_s (k_name k)) (\<lambda>kn.
                                       Inr (printField st
                                              (scopeKey @ colon @ kn @ '':''
                                               @ full_qualified_scope_name))))))
                else Inr st)
      else Inr st)"

definition addTypeRef ::
  "string \<Rightarrow> options \<Rightarrow> (fieldId \<Rightarrow> bool) \<Rightarrow> tagEntryInfo \<Rightarrow> bool \<times> string
     \<Rightarrow> error + (bool \<times> string)" where
  "addTypeRef P opts en tag st =
     (if en FIELD_TYPE_REF \<and> typeRef0 (extensionFields tag) \<noteq> None
         \<and> typeRef1 (extensionFields tag) \<noteq> None
      then bindE (fmt_s (getFieldName P opts FIELD_TYPE_REF)) (\<lambda>key.
           bindE (fmt_s (typeRef0 (extensionFields tag))) (\<lambda>t0.
           bindE (escapeName opts tag FIELD_TYPE_REF) (\<lambda>v.
             Inr (printField st (key @ '':'' @ t0 @ '':'' @ v)))))
      else Inr st)"

definition addFileScope ::
  "string \<Rightarrow> options \<Rightarrow> (fieldId \<Rightarrow> bool) \<Rightarrow> tagEntryInfo \<Rightarrow> bool \<times> string
     \<Rightarrow> error + (bool \<times> string)" where
  "addFileScope P opts en tag st =
     (if en FIELD_FILE_SCOPE \<and> isFileScope tag
      then bindE (fmt_s (getFieldName P opts FIELD_FILE_SCOPE)) (\<lambda>key.
             Inr (printField st (key @ '':'')))
      else Inr st)"

definition addInheritance ::
  "string \<Rightarrow> options \<Rightarrow> (fieldId \<Rightarrow> bool) \<Rightarrow> tagEntryInfo \<Rightarrow> bool \<times> string
     \<Rightarrow> error + (bool \<times> string)" where
  "addInheritance P opts en tag st =
     (if en FIELD_INHERITANCE \<and> inheritance (extensionFields tag) \<noteq> None
      then bindE (fmt_s (getFieldName P opts FIELD_INHERITANCE)) (\<lambda>key.
           bindE (escapeName opts tag FIELD_INHERITANCE) (\<lambda>v.
             Inr (printField st (key @ '':'' @ v))))
      else Inr st)"

definition addAccess ::
  "string \<Rightarrow> options \<Rightarrow> (fieldId \<Rightarrow> bool) \<Rightarrow> tagEntryInfo \<Rightarrow> bool \<times> string
     \<Rightarrow> error + (bool \<times> string)" where
  "addAccess P opts en tag st =
     (if en FIELD_ACCESS \<and> access (extensionFields tag) \<noteq> None
      then bindE (fmt_s (getFieldName P opts FIELD_ACCESS)) (\<lambda>key.
           bindE (fmt_s (access (extensionFields tag))) (\<lambda>v.
             Inr (printField st (key @ '':'' @ v))))
      else Inr st)"

definition addImplementation ::
  "string \<Rightarrow> options \<Rightarrow> (fieldId \<Rightarrow> bool) \<Rightarrow> tagEntryInfo \<Rightarrow> bool \<times> string
     \<Rightarrow> error + (bool \<times> string)" where
  "addImplementation P opts en tag st =
     (if en FIELD_IMPLEMENTATION \<and> implementation (extensionFields tag) \<noteq> None
      then bindE (fmt_s (getFieldName P opts FIELD_IMPLEMENTATION)) (\<lambda>key.
           bindE (fmt_s (implementation (extensionFields tag))) (\<lambda>v.
             Inr (printField st (key @ '':'' @ v))))
      else Inr st)"

definition addSignature ::
  "string \<Rightarrow> options \<Rightarrow> (fieldId \<Rightarrow> bool) \<Rightarrow> tagEntryInfo \<Rightarrow> bool \<times> string
     \<Rightarrow> error + (bool \<times> string)" where
  "addSignature P opts en tag st =
     (if en FIELD_SIGNATURE \<and> signature (extensionFields tag) \<noteq> None
      then bindE (fmt_s (getFieldName P opts FIELD_SIGNATURE)) (\<lambda>key.
           bindE (escapeName opts tag FIELD_SIGNATURE) (\<lambda>v.
             Inr (printField st (key @ '':'' @ v))))
      else Inr st)"

definition addRole ::
  "string \<Rightarrow> options \<Rightarrow> (fieldId \<Rightarrow> bool) \<Rightarrow> tagEntryInfo \<Rightarrow> bool \<times> string
     \<Rightarrow> error + (bool \<times> string)" where
  "addRole P opts en tag st =
     (if en FIELD_ROLE \<and> roleIndex (extensionFields tag) \<noteq> ROLE_INDEX_DEFINITION
      then bindE (fmt_s (getFieldName P opts FIELD_ROLE)) (\<lambda>key.
           bindE (escapeName opts tag FIELD_ROLE) (\<lambda>v.
             Inr (printField st (key @ '':'' @ v))))
      else Inr st)"

text \<open>
  \<open>addExtensionFields\<close>: the statements in the order of the source; the result is the
  text printed and its length.
\<close>

definition addExtensionFields ::
  "string \<Rightarrow> options \<Rightarrow> (fieldId \<Rightarrow> bool) \<Rightarrow> tagFile \<Rightarrow> tagEntryInfo
     \<Rightarrow> error + (string \<times> nat)" where
  "addExtensionFields P opts en tf tag =
     bindE (addKind P opts en tag (True, [])) (\<lambda>st.
     bindE (addLine P opts en tag st) (\<lambda>st.
     bindE (addLanguage P opts en tag st) (\<lambda>st.
     bindE (addScope P opts en tf tag st) (\<lambda>st.
     bindE (addTypeRef P opts en tag st) (\<lambda>st.
     bindE (addFileScope P opts en tag st) (\<lambda>st.
     bindE (addInheritance P opts en tag st) (\<lambda>st.
     bindE (addAccess P opts en tag st) (\<lambda>st.
     bindE (addImplementation P opts en tag st) (\<lambda>st.
     bindE (addSignature P opts en tag st) (\<lambda>st.
     bindE (addRole P opts en tag st) (\<lambda>st.
       Inr (snd st, length (snd st)))))))))))))"

subsection \<open>The writers (entry.c)\<close>

definition writeLineNumberEntry ::
  "options \<Rightarrow> tagEntryInfo \<Rightarrow> tagFile \<Rightarrow> error + (nat \<times> tagFile)" where
  "writeLineNumberEntry opts tag tf =
     bindE (if opt_lineDirectives opts then escapeName opts tag FIELD_LINE_NUMBER
            else Inr (dec (lineNumber tag)))
       (\<lambda>text. Inr (length text, tf\<lparr>tf_fp := tf_fp tf @ text\<rparr>))"

text \<open>
  \<open>writeCtagsEntry\<close>: the length returned and the state after the line is written.
  \<open>includeExtensionFlags ()\<close> is \<open>Option.tagFileFormat > 1\<close>.
\<close>

definition writeCtagsEntry ::
  "options \<Rightarrow> environment \<Rightarrow> (fieldId \<Rightarrow> bool) \<Rightarrow> tagEntryInfo \<Rightarrow> tagFile
     \<Rightarrow> error + (nat \<times> tagFile)" where
  "writeCtagsEntry opts env en tag tf =
     bindE (escapeName opts tag FIELD_NAME) (\<lambda>nm.
     bindE (escapeName opts tag FIELD_INPUT_FILE) (\<lambda>file.
       let head = nm @ [TAB] @ file @ [TAB];
           tf1 = tf\<lparr>tf_fp := tf_fp tf @ head\<rparr>
       in bindE (if lineNumberEntry tag then writeLineNumberEntry opts tag tf1
                 else (case pattern tag of
                         Some p \<Rightarrow> Inr (length p, tf1\<lparr>tf_fp := tf_fp tf1 @ p\<rparr>)
                       | None \<Rightarrow> writePatternEntry opts env tag tf1))
            (\<lambda>(n2, tf2).
          bindE (if opt_tagFileFormat opts > 1
                 then addExtensionFields (env_CTAGS_FIELD_PREFIX env) opts en tf2 tag
                 else Inr ([], 0))
            (\<lambda>(ext, n3).
               Inr (length head + n2 + n3 + 1,
                    tf2\<lparr>tf_fp := tf_fp tf2 @ ext @ [NEWLINE]\<rparr>)))))"

text \<open>
  \<open>writeXrefEntry\<close>; the text of a format is what \<open>fmtPrint\<close> prints.
\<close>

definition writeXrefEntry ::
  "options \<Rightarrow> environment \<Rightarrow> tagEntryInfo \<Rightarrow> tagFile \<Rightarrow> error + (nat \<times> tagFile)" where
  "writeXrefEntry opts env tag tf =
     (case opt_customXfmt opts of
        Some fmt \<Rightarrow>
          (let text = env_fmtPrint env fmt tag
           in Inr (length text + 1, tf\<lparr>tf_fp := tf_fp tf @ text @ [NEWLINE]\<rparr>))
      | None \<Rightarrow>
          if isFileEntry tag then Inr (0, tf)
          else (let text = (if opt_tagFileFormat opts = 1
                            then env_fmtPrint env ''%-16N %4n %-16F %C'' tag
                            else env_fmtPrint env ''%-16N %-10K %4n %-16F %C'' tag)
                in Inr (length text + 1, tf\<lparr>tf_fp := tf_fp tf @ text @ [NEWLINE]\<rparr>)))"

text \<open>
  \<open>isPosSet\<close> tests whether some byte of the position is not zero: for a byte offset,
  whether it is not zero.
\<close>

definition isPosSet :: "nat \<Rightarrow> bool" where
  "isPosSet p = (p \<noteq> 0)"

definition readLineFromBypassAnyway ::
  "environment \<Rightarrow> tagEntryInfo \<Rightarrow> (string \<times> int) option" where
  "readLineFromBypassAnyway env tag =
     (case pattern tag of
        None \<Rightarrow> map_option (\<lambda>l. (l, env_seekValue env (filePosition tag)))
                  (env_readLineFromBypass env (filePosition tag))
      | Some p \<Rightarrow>
          if isPosSet (filePosition tag)
          then map_option (\<lambda>l. (l, env_seekValue env (filePosition tag)))
                 (env_readLineFromBypass env (filePosition tag))
          else env_readLineFromBypassSlow env (lineNumber tag) p)"

text \<open>
  \<open>writeEtagsEntry\<close>. Without \<open>truncateLine\<close> the last character of the line is cut with
  \<open>line [strlen (line) - 1] = '\0'\<close>, a write outside the line when it is empty.
\<close>

definition writeEtagsEntry ::
  "options \<Rightarrow> environment \<Rightarrow> tagEntryInfo \<Rightarrow> tagFile \<Rightarrow> error + (nat \<times> tagFile)" where
  "writeEtagsEntry opts env tag tf =
     (if isFileEntry tag
      then (let text = [CHR 0x7F] @ name tag @ [CHR 0x01] @ dec (lineNumber tag) @ '',0''
                       @ [NEWLINE]
            in Inr (length text,
                    tf\<lparr>tf_etags_fp := tf_etags_fp tf @ text,
                       tf_etags_byteCount := tf_etags_byteCount tf + length text\<rparr>))
      else (case readLineFromBypassAnyway env tag of
              None \<Rightarrow> Inr (0, tf)
            | Some (line0, seekValue) \<Rightarrow>
                bindE (if truncateLine tag then Inr (truncateTagLine line0 (name tag) True)
                       else if line0 = [] then Inl OutOfRange
                       else Inr (butlast line0))
                  (\<lambda>line.
                     let text = line @ [CHR 0x7F] @ name tag @ [CHR 0x01]
                                @ dec (lineNumber tag) @ '','' @ dec_int seekValue @ [NEWLINE]
                     in Inr (length text,
                             tf\<lparr>tf_etags_fp := tf_etags_fp tf @ text,
                                tf_etags_byteCount := tf_etags_byteCount tf + length text\<rparr>))))"

definition writeTagEntry ::
  "options \<Rightarrow> environment \<Rightarrow> (fieldId \<Rightarrow> bool) \<Rightarrow> tagEntryInfo \<Rightarrow> tagFile
     \<Rightarrow> error + tagFile" where
  "writeTagEntry opts env en tag tf =
     (if placeholder tag then Inr tf
      else bindE (if opt_xref opts then writeXrefEntry opts env tag tf
                  else if opt_etags opts then writeEtagsEntry opts env tag tf
                  else writeCtagsEntry opts env en tag tf)
             (\<lambda>(len, tf1).
                abort_if_ferror
                  (rememberMaxLengths (length (name tag)) len
                     (tf1\<lparr>tf_numTags_added := tf_numTags_added tf1 + 1\<rparr>))))"

subsection \<open>Cork and uncork (entry.c)\<close>

text \<open>
  \<open>recordTagEntryInQueue\<close>: the slot is a copy of the tag with its own strings, and with
  a pattern made now when the tag has none and is not a line number entry.
\<close>

definition recordTagEntryInQueue ::
  "options \<Rightarrow> environment \<Rightarrow> tagEntryInfo \<Rightarrow> tagFile \<Rightarrow> error + (tagEntryInfo \<times> tagFile)" where
  "recordTagEntryInQueue opts env tag tf =
     (case pattern tag of
        Some p \<Rightarrow> Inr (tag, tf)
      | None \<Rightarrow>
          if \<not> lineNumberEntry tag
          then bindE (makePatternString opts env tag tf)
                 (\<lambda>(p, tf1). Inr (tag\<lparr>pattern := Some p\<rparr>, tf1))
          else Inr (tag, tf))"

text \<open>
  \<open>queueTagEntry\<close>. \<open>eRealloc\<close> keeps the slots and adds new ones, whose content is not
  specified; here they are zero entries. The result is the index of the slot.
\<close>

definition queueTagEntry ::
  "options \<Rightarrow> environment \<Rightarrow> tagEntryInfo \<Rightarrow> tagFile \<Rightarrow> error + (nat \<times> tagFile)" where
  "queueTagEntry opts env tag tf =
     (let tf1 = (if \<not> (tf_count tf < tf_length tf)
                 then (let len1 = (if tf_length tf = 0 then 1 else tf_length tf)
                       in tf\<lparr>tf_queue := tf_queue tf
                                 @ replicate (len1 * 2 - length (tf_queue tf)) zeroTagEntry,
                             tf_length := len1 * 2\<rparr>)
                 else tf);
          i = tf_count tf1;
          tf2 = tf1\<lparr>tf_count := tf_count tf1 + 1\<rparr>
      in bindE (recordTagEntryInQueue opts env tag tf2)
           (\<lambda>(slot, tf3). Inr (i, tf3\<lparr>tf_queue := (tf_queue tf3)[i := slot]\<rparr>)))"

definition corkTagFile :: "tagFile \<Rightarrow> tagFile" where
  "corkTagFile tf =
     (let tf1 = tf\<lparr>tf_cork := tf_cork tf + 1\<rparr>
      in if tf_cork tf1 = 1
         then tf1\<lparr>tf_length := 1, tf_count := 1, tf_queue := [zeroTagEntry]\<rparr>
         else tf1)"



text \<open>
  \<open>makeTagEntry\<close>: the value returned and the state after the call.
\<close>

definition makeTagEntry ::
  "options \<Rightarrow> environment \<Rightarrow> (fieldId \<Rightarrow> bool) \<Rightarrow> tagEntryInfo \<Rightarrow> tagFile
     \<Rightarrow> error + (int \<times> tagFile)" where
  "makeTagEntry opts env en tag tf =
     (if name tag = [] \<and> \<not> placeholder tag
      then (if \<not> env_allowNullTag env
            then Inr (int SCOPE_NIL,
                      tf\<lparr>tf_messages := tf_messages tf
                           @ [Warning (''ignoring null tag in '' @ env_inputFileName env
                                       @ ''(line: '' @ dec (lineNumber tag) @ '')'')]\<rparr>)
            else Inr (int SCOPE_NIL, tf))
      else if tf_cork tf \<noteq> 0
      then bindE (queueTagEntry opts env tag tf) (\<lambda>(r, tf1). Inr (int r, tf1))
      else bindE (writeTagEntry opts env en tag tf) (\<lambda>tf1. Inr (int SCOPE_NIL, tf1)))"

subsection \<open>A parser's calls in a cork session\<close>















subsection \<open>The extension fields in the words of the specification\<close>

text \<open>
  The eleven fields that \<open>addExtensionFields\<close> can print, named after the statements
  of the source that print them.
\<close>

datatype extensionField =
    X_kind | X_line | X_language | X_scope | X_typeref | X_fileScope | X_inheritance
  | X_access | X_implementation | X_signature | X_role

text \<open>The descriptor of the field is enabled (for the kind: one of its two).\<close>

fun fieldEnabled :: "(fieldId \<Rightarrow> bool) \<Rightarrow> extensionField \<Rightarrow> bool" where
  "fieldEnabled en X_kind = (en FIELD_KIND_LONG \<or> en FIELD_KIND)"
| "fieldEnabled en X_line = en FIELD_LINE_NUMBER"
| "fieldEnabled en X_language = en FIELD_LANGUAGE"
| "fieldEnabled en X_scope = en FIELD_SCOPE"
| "fieldEnabled en X_typeref = en FIELD_TYPE_REF"
| "fieldEnabled en X_fileScope = en FIELD_FILE_SCOPE"
| "fieldEnabled en X_inheritance = en FIELD_INHERITANCE"
| "fieldEnabled en X_access = en FIELD_ACCESS"
| "fieldEnabled en X_implementation = en FIELD_IMPLEMENTATION"
| "fieldEnabled en X_signature = en FIELD_SIGNATURE"
| "fieldEnabled en X_role = en FIELD_ROLE"

text \<open>The tag has a value for the field.\<close>

fun fieldAvailable :: "tagFile \<Rightarrow> tagEntryInfo \<Rightarrow> extensionField \<Rightarrow> bool" where
  "fieldAvailable tf tag X_kind = (kind tag \<noteq> None)"
| "fieldAvailable tf tag X_line = True"
| "fieldAvailable tf tag X_language = (language tag \<noteq> None)"
| "fieldAvailable tf tag X_scope =
     ((scopeKind (extensionFields tag) \<noteq> None \<and> scopeName (extensionFields tag) \<noteq> None)
      \<or> (scopeIndex (extensionFields tag) \<noteq> SCOPE_NIL \<and> tf_count tf > 0))"
| "fieldAvailable tf tag X_typeref =
     (typeRef0 (extensionFields tag) \<noteq> None \<and> typeRef1 (extensionFields tag) \<noteq> None)"
| "fieldAvailable tf tag X_fileScope = isFileScope tag"
| "fieldAvailable tf tag X_inheritance = (inheritance (extensionFields tag) \<noteq> None)"
| "fieldAvailable tf tag X_access = (access (extensionFields tag) \<noteq> None)"
| "fieldAvailable tf tag X_implementation = (implementation (extensionFields tag) \<noteq> None)"
| "fieldAvailable tf tag X_signature = (signature (extensionFields tag) \<noteq> None)"
| "fieldAvailable tf tag X_role = (roleIndex (extensionFields tag) \<noteq> ROLE_INDEX_DEFINITION)"

text \<open>
  The key of a field with its colon, and the key of the kind and of the scope, which
  is printed only when the descriptor \<open>z\<close> or \<open>Z\<close> is enabled.
\<close>

definition fieldKey :: "string \<Rightarrow> options \<Rightarrow> fieldId \<Rightarrow> error + string" where
  "fieldKey P opts f = bindE (fmt_s (getFieldName P opts f)) (\<lambda>key. Inr (key @ '':''))"

definition optionalKey ::
  "string \<Rightarrow> options \<Rightarrow> (fieldId \<Rightarrow> bool) \<Rightarrow> fieldId \<Rightarrow> error + string" where
  "optionalKey P opts en f = (if en f then fieldKey P opts f else Inr [])"

text \<open>The text of a field after its tab: the key and the value.\<close>

fun fieldText ::
  "string \<Rightarrow> options \<Rightarrow> (fieldId \<Rightarrow> bool) \<Rightarrow> tagFile \<Rightarrow> tagEntryInfo \<Rightarrow> extensionField
     \<Rightarrow> error + string" where
  "fieldText P opts en tf tag X_kind =
     (case kind tag of
        None \<Rightarrow> Inl NullPointer
      | Some k \<Rightarrow>
          bindE (optionalKey P opts en FIELD_KIND_KEY) (\<lambda>key.
            Inr (key @ (case k_name k of
                          Some kn \<Rightarrow> if en FIELD_KIND_LONG then kn else [k_letter k]
                        | None \<Rightarrow> [k_letter k]))))"
| "fieldText P opts en tf tag X_line =
     bindE (fieldKey P opts FIELD_LINE_NUMBER) (\<lambda>key. Inr (key @ dec (lineNumber tag)))"
| "fieldText P opts en tf tag X_language =
     bindE (fieldKey P opts FIELD_LANGUAGE) (\<lambda>key.
     bindE (escapeName opts tag FIELD_LANGUAGE) (\<lambda>v. Inr (key @ v)))"
| "fieldText P opts en tf tag X_scope =
     bindE (optionalKey P opts en FIELD_SCOPE_KEY) (\<lambda>key.
       case (scopeKind (extensionFields tag), scopeName (extensionFields tag)) of
         (Some sk, Some sn) \<Rightarrow>
           bindE (fmt_s (k_name sk)) (\<lambda>kn.
           bindE (escapeName opts tag FIELD_SCOPE) (\<lambda>v. Inr (key @ kn @ '':'' @ v)))
       | _ \<Rightarrow>
           (let scope = getEntryInCorkQueue tf (scopeIndex (extensionFields tag)) in
            case getFullQualifiedScopeNameFromCorkQueue opts tf scope of
              None \<Rightarrow> Inl NoReturn
            | Some r \<Rightarrow>
                bindE r (\<lambda>v.
                  case scope of
                    None \<Rightarrow> Inl NullPointer
                  | Some sc \<Rightarrow>
                      (case kind sc of
                         None \<Rightarrow> Inl NullPointer
                       | Some k \<Rightarrow> bindE (fmt_s (k_name k)) (\<lambda>kn. Inr (key @ kn @ '':'' @ v))))))"
| "fieldText P opts en tf tag X_typeref =
     bindE (fieldKey P opts FIELD_TYPE_REF) (\<lambda>key.
     bindE (fmt_s (typeRef0 (extensionFields tag))) (\<lambda>t0.
     bindE (escapeName opts tag FIELD_TYPE_REF) (\<lambda>v. Inr (key @ t0 @ '':'' @ v))))"
| "fieldText P opts en tf tag X_fileScope = fieldKey P opts FIELD_FILE_SCOPE"
| "fieldText P opts en tf tag X_inheritance =
     bindE (fieldKey P opts FIELD_INHERITANCE) (\<lambda>key.
     bindE (escapeName opts tag FIELD_INHERITANCE) (\<lambda>v. Inr (key @ v)))"
| "fieldText P opts en tf tag X_access =
     bindE (fieldKey P opts FIELD_ACCESS) (\<lambda>key.
     bindE (fmt_s (access (extensionFields tag))) (\<lambda>v. Inr (key @ v)))"
| "fieldText P opts en tf tag X_implementation =
     bindE (fieldKey P opts FIELD_IMPLEMENTATION) (\<lambda>key.
     bindE (fmt_s (implementation (extensionFields tag))) (\<lambda>v. Inr (key @ v)))"
| "fieldText P opts en tf tag X_signature =
     bindE (fieldKey P opts FIELD_SIGNATURE) (\<lambda>key.
     bindE (escapeName opts tag FIELD_SIGNATURE) (\<lambda>v. Inr (key @ v)))"
| "fieldText P opts en tf tag X_role =
     bindE (fieldKey P opts FIELD_ROLE) (\<lambda>key.
     bindE (escapeName opts tag FIELD_ROLE) (\<lambda>v. Inr (key @ v)))"

text \<open>The texts of a list of fields, stopping at the first error.\<close>

fun mapE :: "('a \<Rightarrow> error + 'b) \<Rightarrow> 'a list \<Rightarrow> error + 'b list" where
  "mapE f [] = Inr []"
| "mapE f (x # xs) = bindE (f x) (\<lambda>y. bindE (mapE f xs) (\<lambda>ys. Inr (y # ys)))"

text \<open>
  The suffix of a tag line for the texts of its fields: nothing when there is none,
  else \<open>;"\<close> and the texts, each after a tab.
\<close>

definition extensionSuffix :: "string list \<Rightarrow> string" where
  "extensionSuffix texts =
     (if texts = [] then [] else [CHR '';'', CHR 0x22] @ concat (map (\<lambda>t. TAB # t) texts))"

text \<open>One statement of \<open>addExtensionFields\<close>, for the field \<open>x\<close>.\<close>

definition emitField ::
  "string \<Rightarrow> options \<Rightarrow> (fieldId \<Rightarrow> bool) \<Rightarrow> tagFile \<Rightarrow> tagEntryInfo \<Rightarrow> extensionField
     \<Rightarrow> bool \<times> string \<Rightarrow> error + (bool \<times> string)" where
  "emitField P opts en tf tag x st =
     (if fieldEnabled en x \<and> fieldAvailable tf tag x
      then bindE (fieldText P opts en tf tag x) (\<lambda>text. Inr (printField st text))
      else Inr st)"

text \<open>The order of the statements of \<open>addExtensionFields\<close>.\<close>

definition extensionFieldOrder :: "extensionField list" where
  "extensionFieldOrder =
     [X_kind, X_line, X_language, X_scope, X_typeref, X_fileScope, X_inheritance, X_access,
      X_implementation, X_signature, X_role]"

text \<open>The fields of a tag that are enabled and available, in that order.\<close>

definition presentFields ::
  "(fieldId \<Rightarrow> bool) \<Rightarrow> tagFile \<Rightarrow> tagEntryInfo \<Rightarrow> extensionField list" where
  "presentFields en tf tag =
     filter (\<lambda>x. fieldEnabled en x \<and> fieldAvailable tf tag x) extensionFieldOrder"

section \<open>Part II: properties\<close>

subsection \<open>The field registry\<close>

lemma getFieldObject_Some:
  "0 \<le> type \<Longrightarrow> type < int (length objs) \<Longrightarrow> getFieldObject objs type = Some (objs ! nat type)"
  by (simp add: getFieldObject_def)

lemma fixedFieldsEnabled_init: "fixedFieldsEnabled (initFieldObjects p)"
  by (simp add: fixedFieldsEnabled_def initFieldObjects_def fieldDefinitionsFixed_def
      fieldDefinitionsExuberant_def fieldDefinitionsUniversal_def DEFINE_FIELD_def
      NUL_FIELD_LETTER_def)

lemma fixedFieldsEnabled_enableField:
  assumes "fixedFieldsEnabled objs" and "enableField objs type state warn = Some (old, objs', msgs)"
  shows "fixedFieldsEnabled objs'"
proof (cases "getFieldObject objs type")
  case None
  with assms(2) show ?thesis by (simp add: enableField_def)
next
  case (Some fobj)
  show ?thesis
  proof (cases "fo_fixed fobj")
    case True
    with Some assms show ?thesis by (simp add: enableField_def Let_def)
  next
    case False
    with Some assms(2) have objs':
      "objs' = objs[nat type := fobj\<lparr>fo_def := (fo_def fobj)\<lparr>fd_enabled := state\<rparr>\<rparr>]"
      by (auto simp: enableField_def Let_def)
    from assms(1) False show ?thesis
      unfolding objs' fixedFieldsEnabled_def list_all_iff
      by (auto dest!: set_update_subset_insert [THEN subsetD])
  qed
qed

lemma fixedFieldsEnabled_updateSiblingField_loop:
  "fixedFieldsEnabled objs \<Longrightarrow> fixedFieldsEnabled (updateSiblingField_loop objs type nm j)"
proof (induction j)
  case 0
  then show ?case by simp
next
  case (Suc j)
  then show ?case
    by (auto simp: fixedFieldsEnabled_def list_all_length nth_list_update)
qed

lemma fixedFieldsEnabled_defineField:
  assumes "fixedFieldsEnabled objs" and "defineField p objs d lang = Some (objs', ftype)"
  shows "fixedFieldsEnabled objs'"
proof -
  from assms(2) obtain n fobj where objs': "objs' = updateSiblingField (objs @ [fobj]) ftype n"
    and nf: "\<not> fo_fixed fobj"
    by (auto simp: defineField_def Let_def split: option.splits)
  from assms(1) nf have "fixedFieldsEnabled (objs @ [fobj])"
    by (simp add: fixedFieldsEnabled_def)
  then show ?thesis
    unfolding objs' updateSiblingField_def by (rule fixedFieldsEnabled_updateSiblingField_loop)
qed

lemmas initFieldObjects_simps =
  initFieldObjects_def fieldDefinitionsFixed_def fieldDefinitionsExuberant_def
  fieldDefinitionsUniversal_def DEFINE_FIELD_def

text \<open>
  Claim C7, as the code has it. For a field type in the range of the registry:
  \<^item> \<open>enableField\<close> returns the state of the field before the call, which is what
    \<open>isFieldEnabled\<close> answered before the call;
  \<^item> for a field that is not fixed, enabling, disabling and enabling again returns the
    initial state, then \<open>True\<close>, then \<open>False\<close>, and the final query answers \<open>True\<close>: the
    state last set, which is the initial value only for a field that was enabled;
  \<^item> for a fixed field of a registry whose fixed fields are enabled (as after
    \<open>initFieldObjects\<close>, and kept by \<open>enableField\<close> and \<open>defineField\<close>), an attempt to
    disable returns \<open>True\<close>, leaves the registry as it is, and logs a message, a
    warning, exactly when the warn flag is set.
\<close>

theorem enableField_contract:
  assumes "0 \<le> type" and "type < int (length objs)"
  shows "(\<exists>objs' msgs. enableField objs type state warn
              = Some (fd_enabled (fo_def (objs ! nat type)), objs', msgs))
       \<and> isFieldEnabled objs type = Some (fd_enabled (fo_def (objs ! nat type)))
       \<and> (isFieldFixed objs type = Some False \<longrightarrow>
            enableDisableEnable objs type warn
              = Some ([fd_enabled (fo_def (objs ! nat type)), True, False], True))
       \<and> (isFieldFixed objs type = Some True \<and> fixedFieldsEnabled objs \<longrightarrow>
            (\<exists>msgs. enableField objs type False warn = Some (True, objs, msgs)
                    \<and> (msgs \<noteq> [] \<longleftrightarrow> warn)
                    \<and> (\<forall>m \<in> set msgs. \<exists>t. m = Warning t))
            \<and> isFieldEnabled objs type = Some True)"
proof -
  let ?f = "objs ! nat type"
  have g: "getFieldObject objs type = Some ?f"
    using assms by (rule getFieldObject_Some)
  have n: "nat type < length objs" using assms by simp
  have a: "\<exists>objs' msgs. enableField objs type state warn
              = Some (fd_enabled (fo_def ?f), objs', msgs)"
    by (simp add: enableField_def g Let_def)
  have q: "isFieldEnabled objs type = Some (fd_enabled (fo_def ?f))"
    by (simp add: isFieldEnabled_def g)
  have b: "enableDisableEnable objs type warn
              = Some ([fd_enabled (fo_def ?f), True, False], True)"
    if "isFieldFixed objs type = Some False"
  proof -
    from that have nf: "\<not> fo_fixed ?f" by (simp add: isFieldFixed_def g)
    show ?thesis
      using nf n assms
      by (simp add: enableDisableEnable_def enableField_def isFieldEnabled_def
          getFieldObject_def Let_def)
  qed
  have c: "(\<exists>msgs. enableField objs type False warn = Some (True, objs, msgs)
                    \<and> (msgs \<noteq> [] \<longleftrightarrow> warn)
                    \<and> (\<forall>m \<in> set msgs. \<exists>t. m = Warning t))
            \<and> isFieldEnabled objs type = Some True"
    if "isFieldFixed objs type = Some True" and "fixedFieldsEnabled objs"
  proof -
    from that(1) have fx: "fo_fixed ?f" by (simp add: isFieldFixed_def g)
    from that(2) n fx have en: "fd_enabled (fo_def ?f)"
      and nm: "fd_name (fo_def ?f) \<noteq> None \<or> fd_letter (fo_def ?f) \<noteq> NUL_FIELD_LETTER"
      by (auto simp: fixedFieldsEnabled_def list_all_length)
    show ?thesis
      using fx en nm
      by (auto simp: enableField_def g Let_def q fixedFieldWarning_def split: option.splits)
  qed
  from a q b c show ?thesis by blast
qed

theorem enableField_contract_witness:
  "enableDisableEnable (initFieldObjects ''UCTAGS'') 4 False = Some ([False, True, False], True)
   \<and> (\<exists>msgs. enableField (initFieldObjects ''UCTAGS'') 0 False True
                = Some (True, initFieldObjects ''UCTAGS'', msgs) \<and> msgs \<noteq> [])"
proof -
  let ?F = "initFieldObjects ''UCTAGS''"
  have len: "length ?F = 23" by (simp add: initFieldObjects_simps)
  have nf: "isFieldFixed ?F 4 = Some False"
    by (simp add: isFieldFixed_def getFieldObject_def initFieldObjects_simps)
  have fx: "isFieldFixed ?F 0 = Some True"
    by (simp add: isFieldFixed_def getFieldObject_def initFieldObjects_simps)
  have e4: "fd_enabled (fo_def (?F ! nat 4)) = False"
    by (simp add: initFieldObjects_simps)
  from enableField_contract [of 4 ?F True False] nf e4 len
  have one: "enableDisableEnable ?F 4 False = Some ([False, True, False], True)"
    by simp
  from enableField_contract [of 0 ?F False True] fx fixedFieldsEnabled_init [of "''UCTAGS''"] len
  have two: "\<exists>msgs. enableField ?F 0 False True = Some (True, ?F, msgs) \<and> msgs \<noteq> []"
    by auto
  from one two show ?thesis by blast
qed

text \<open>
  Claim C7 as it is written fails for a field that starts disabled: the field
  \<open>access\<close> (letter \<open>a\<close>, index 4) is not fixed and is disabled in the initial registry;
  after enabling, disabling and enabling it again the final query answers \<open>True\<close>.
\<close>

theorem enableField_reenable_counterexample:
  "isFieldFixed (initFieldObjects ''UCTAGS'') 4 = Some False
   \<and> isFieldEnabled (initFieldObjects ''UCTAGS'') 4 = Some False
   \<and> map_option snd (enableDisableEnable (initFieldObjects ''UCTAGS'') 4 False) = Some True"
  by (simp add: isFieldFixed_def isFieldEnabled_def getFieldObject_def enableDisableEnable_def
      enableField_def initFieldObjects_simps Let_def)

subsection \<open>Append mode: the sorted flag\<close>

lemma existingFlag_sortedPseudoTagLine:
  "existingFlag (sortedPseudoTagLine wopts) = Some (sortedFlag wopts)"
  by (simp add: existingFlag_def sortedPseudoTagLine_def pseudoTagLine_def strchr_def
      PSEUDO_TAG_PREFIX_def TAB_def char_at_def)

text \<open>
  Claim C10. \<open>updateSortedFlag\<close> changes the file only when the flag character of the
  line, the character after its first tab, is \<open>0\<close> or \<open>1\<close>. For any other flag, and for
  a line without a tab, it returns the stream as it was, bytes and position. The
  \<open>TAG_FILE_SORTED\<close> line that the program writes for a file sorted with case folded
  has the flag \<open>2\<close>, and is left as it is.
\<close>

theorem updateSortedFlag_writes_only_over_0_or_1:
  "(\<forall>fp' msgs. updateSortedFlag opts line fp startOfLine = Some (fp', msgs)
        \<longrightarrow> contents fp' \<noteq> contents fp
        \<longrightarrow> existingFlag line = Some (CHR ''0'') \<or> existingFlag line = Some (CHR ''1''))
   \<and> (existingFlag line \<noteq> Some (CHR ''0'') \<and> existingFlag line \<noteq> Some (CHR ''1'')
        \<longrightarrow> updateSortedFlag opts line fp startOfLine = Some (fp, []))
   \<and> (opt_sorted wopts = SO_FOLDSORTED
        \<longrightarrow> existingFlag (sortedPseudoTagLine wopts) = Some (CHR ''2'')
            \<and> updateSortedFlag opts (sortedPseudoTagLine wopts) fp startOfLine = Some (fp, []))"
proof -
  have unchanged: "updateSortedFlag opts l fp startOfLine = Some (fp, [])"
    if "existingFlag l \<noteq> Some (CHR ''0'')" and "existingFlag l \<noteq> Some (CHR ''1'')" for l
    using that by (simp add: updateSortedFlag_def split: option.splits)
  have written: "existingFlag line = Some (CHR ''0'') \<or> existingFlag line = Some (CHR ''1'')"
    if "updateSortedFlag opts line fp startOfLine = Some (fp', msgs)"
      and "contents fp' \<noteq> contents fp" for fp' msgs
  proof (rule ccontr)
    assume "\<not> ?thesis"
    then have "updateSortedFlag opts line fp startOfLine = Some (fp, [])"
      using unchanged by simp
    with that show False by simp
  qed
  have fold: "existingFlag (sortedPseudoTagLine wopts) = Some (CHR ''2'')
        \<and> updateSortedFlag opts (sortedPseudoTagLine wopts) fp startOfLine = Some (fp, [])"
    if "opt_sorted wopts = SO_FOLDSORTED"
  proof -
    from that have "existingFlag (sortedPseudoTagLine wopts) = Some (CHR ''2'')"
      by (simp add: existingFlag_sortedPseudoTagLine sortedFlag_def)
    then show ?thesis using unchanged by simp
  qed
  from unchanged written fold show ?thesis by blast
qed

theorem updateSortedFlag_writes_only_over_0_or_1_witness:
  "updateSortedFlag unsortedOptions (contents foldsortedHeader) foldsortedHeader 0
     = Some (foldsortedHeader, [])
   \<and> existingFlag (contents sortedHeader) = Some (CHR ''1'')
   \<and> map_option (\<lambda>r. contents (fst r) = contents sortedHeader)
        (updateSortedFlag unsortedOptions (contents sortedHeader) sortedHeader 0) = Some False"
proof -
  let ?w = "unsortedOptions\<lparr>opt_sorted := SO_FOLDSORTED\<rparr>"
  have f: "opt_sorted ?w = SO_FOLDSORTED" by simp
  from updateSortedFlag_writes_only_over_0_or_1 [of unsortedOptions "contents foldsortedHeader"
      foldsortedHeader 0 ?w] f
  have one: "updateSortedFlag unsortedOptions (contents foldsortedHeader) foldsortedHeader 0
     = Some (foldsortedHeader, [])"
    by (simp add: foldsortedHeader_def)
  have two: "map_option (\<lambda>r. contents (fst r) = contents sortedHeader)
        (updateSortedFlag unsortedOptions (contents sortedHeader) sortedHeader 0) = Some False"
    by code_simp
  then obtain fp' msgs where
    r: "updateSortedFlag unsortedOptions (contents sortedHeader) sortedHeader 0 = Some (fp', msgs)"
    and ne: "contents fp' \<noteq> contents sortedHeader"
    by (cases "updateSortedFlag unsortedOptions (contents sortedHeader) sortedHeader 0") auto
  from updateSortedFlag_writes_only_over_0_or_1 [of unsortedOptions "contents sortedHeader"
      sortedHeader 0 ?w] r ne
  have three: "existingFlag (contents sortedHeader) = Some (CHR ''0'')
     \<or> existingFlag (contents sortedHeader) = Some (CHR ''1'')"
    by blast
  have "existingFlag (contents sortedHeader) \<noteq> Some (CHR ''0'')"
    by code_simp
  with three have "existingFlag (contents sortedHeader) = Some (CHR ''1'')" by simp
  with one two show ?thesis by simp
qed

text \<open>
  Claim C8 at a file the code can be given. The file has a tag \<open>!A\<close> of the file \<open>1.c\<close>
  before the \<open>TAG_FILE_SORTED\<close> line. The line of \<open>!A\<close> begins with \<open>!\<close> and not with
  \<open>!_TAG_FILE\<close>, so \<open>startOfLine\<close> still holds the start of the file when
  \<open>updateSortedFlag\<close> is called for the \<open>TAG_FILE_SORTED\<close> line; with the option
  \<open>unsorted\<close> the byte after the first tab of the first line, the \<open>1\<close> of \<open>1.c\<close>, is
  overwritten with \<open>0\<close>, and the flag of the \<open>TAG_FILE_SORTED\<close> line stays \<open>1\<close>.
\<close>

theorem updatePseudoTags_writes_other_line:
  "map_option (\<lambda>(n, fp, msgs). (n, contents fp, msgs))
     (updatePseudoTags unsortedOptions \<lparr>contents = tagsFileBangA, pos = 0, seekable = True\<rparr>)
   = Some (2, ''!A'' @ [TAB] @ ''0.c'' @ [TAB] @ ''/^x$/'' @ [NEWLINE]
              @ sortedPseudoTagLine (unsortedOptions\<lparr>opt_sorted := SO_SORTED\<rparr>), [])"
  by code_simp

subsection \<open>Validation of an existing tag file\<close>

lemma scanset_Some_iff:
  "scanset p s = Some (m, r)
     \<longleftrightarrow> m \<noteq> [] \<and> s = m @ r \<and> (\<forall>c \<in> set m. p c) \<and> (r = [] \<or> \<not> p (hd r))"
proof
  assume "scanset p s = Some (m, r)"
  then have m: "m = takeWhile p s" and r: "r = dropWhile p s" and ne: "m \<noteq> []"
    by (auto simp: scanset_def Let_def dropWhile_eq_drop split: if_splits)
  have "dropWhile p s = [] \<or> \<not> p (hd (dropWhile p s))"
    using hd_dropWhile [of p s] by blast
  then show "m \<noteq> [] \<and> s = m @ r \<and> (\<forall>c \<in> set m. p c) \<and> (r = [] \<or> \<not> p (hd r))"
    using ne unfolding m r
    by (auto dest: set_takeWhileD)
next
  assume a: "m \<noteq> [] \<and> s = m @ r \<and> (\<forall>c \<in> set m. p c) \<and> (r = [] \<or> \<not> p (hd r))"
  then have "takeWhile p r = []" by (cases r) auto
  with a have "takeWhile p s = m" by (simp add: takeWhile_append2)
  with a show "scanset p s = Some (m, r)"
    by (simp add: scanset_def Let_def)
qed

lemma scanset_None_iff: "scanset p s = None \<longleftrightarrow> s = [] \<or> \<not> p (hd s)"
  by (cases s) (auto simp: scanset_def Let_def)

lemma sscanf_fields_five:
  "sscanf_fields line = [tag, tab1, src, tab2, excmd]
     \<longleftrightarrow> (\<exists>r1 r2 r3 r4 r5.
           scanset (\<lambda>c. c \<noteq> TAB) line = Some (tag, r1)
         \<and> scanset (\<lambda>c. c = TAB) r1 = Some (tab1, r2)
         \<and> scanset (\<lambda>c. c \<noteq> TAB) r2 = Some (src, r3)
         \<and> scanset (\<lambda>c. c = TAB) r3 = Some (tab2, r4)
         \<and> scanset (\<lambda>c. c \<noteq> CRETURN \<and> c \<noteq> NEWLINE) r4 = Some (excmd, r5))"
  by (auto simp: sscanf_fields_def split: option.splits)

lemma sscanf_fields_length: "length (sscanf_fields line) \<le> 5"
  by (auto simp: sscanf_fields_def split: option.splits)

lemma all_tabs_length1: "(\<forall>c \<in> set t. c = TAB) \<Longrightarrow> length t = 1 \<Longrightarrow> t = [TAB]"
  by (cases t) auto

lemma isCtagsLine_iff:
  "isCtagsLine line \<longleftrightarrow>
     (\<exists>tag src excmd rest.
        line = tag @ [TAB] @ src @ [TAB] @ excmd @ rest
        \<and> tag \<noteq> [] \<and> TAB \<notin> set tag \<and> hd tag \<noteq> CHR ''#''
        \<and> src \<noteq> [] \<and> TAB \<notin> set src \<and> last src \<noteq> CHR '';''
        \<and> excmd \<noteq> [] \<and> hd excmd \<noteq> TAB \<and> CRETURN \<notin> set excmd \<and> NEWLINE \<notin> set excmd
        \<and> (rest = [] \<or> hd rest = CRETURN \<or> hd rest = NEWLINE)
        \<and> isValidTagAddress excmd)"
  (is "?L \<longleftrightarrow> ?R")
proof
  assume ?L
  then obtain tag tab1 src tab2 excmd where
    f: "sscanf_fields line = [tag, tab1, src, tab2, excmd]"
    and c: "length tab1 = 1" "length tab2 = 1" "char_at tag 0 \<noteq> CHR ''#''"
      "char_at src (length src - 1) \<noteq> CHR '';''" "isValidTagAddress excmd"
    by (auto simp: isCtagsLine_def split: list.splits)
  from f obtain r1 r2 r3 r4 r5 where
    s1: "scanset (\<lambda>c. c \<noteq> TAB) line = Some (tag, r1)"
    and s2: "scanset (\<lambda>c. c = TAB) r1 = Some (tab1, r2)"
    and s3: "scanset (\<lambda>c. c \<noteq> TAB) r2 = Some (src, r3)"
    and s4: "scanset (\<lambda>c. c = TAB) r3 = Some (tab2, r4)"
    and s5: "scanset (\<lambda>c. c \<noteq> CRETURN \<and> c \<noteq> NEWLINE) r4 = Some (excmd, r5)"
    unfolding sscanf_fields_five by blast
  from s2 c(1) have t1: "tab1 = [TAB]" by (auto simp: scanset_Some_iff intro: all_tabs_length1)
  from s4 c(2) have t2: "tab2 = [TAB]" by (auto simp: scanset_Some_iff intro: all_tabs_length1)
  from s1 have tag: "tag \<noteq> []" "TAB \<notin> set tag" "line = tag @ r1"
    by (auto simp: scanset_Some_iff)
  from s2 t1 have r1: "r1 = [TAB] @ r2" by (auto simp: scanset_Some_iff)
  from s3 have src: "src \<noteq> []" "TAB \<notin> set src" "r2 = src @ r3"
    by (auto simp: scanset_Some_iff)
  from s4 t2 have r3: "r3 = [TAB] @ r4" and r4: "r4 = [] \<or> hd r4 \<noteq> TAB"
    by (auto simp: scanset_Some_iff)
  from s5 have ex: "excmd \<noteq> []" "CRETURN \<notin> set excmd" "NEWLINE \<notin> set excmd" "r4 = excmd @ r5"
    "r5 = [] \<or> hd r5 = CRETURN \<or> hd r5 = NEWLINE"
    by (auto simp: scanset_Some_iff)
  from r4 ex have hx: "hd excmd \<noteq> TAB" by auto
  from c(3) tag(1) have h: "hd tag \<noteq> CHR ''#''"
    by (cases tag) (auto simp: char_at_def)
  from c(4) src(1) have l: "last src \<noteq> CHR '';''"
    by (simp add: char_at_def last_conv_nth)
  have "line = tag @ [TAB] @ src @ [TAB] @ excmd @ r5"
    using tag(3) r1 src(3) r3 ex(4) by simp
  with tag src ex hx h l c(5) show ?R by blast
next
  assume ?R
  then obtain tag src excmd rest where
    line: "line = tag @ [TAB] @ src @ [TAB] @ excmd @ rest"
    and tag: "tag \<noteq> []" "TAB \<notin> set tag" "hd tag \<noteq> CHR ''#''"
    and src: "src \<noteq> []" "TAB \<notin> set src" "last src \<noteq> CHR '';''"
    and ex: "excmd \<noteq> []" "hd excmd \<noteq> TAB" "CRETURN \<notin> set excmd" "NEWLINE \<notin> set excmd"
      "rest = [] \<or> hd rest = CRETURN \<or> hd rest = NEWLINE"
    and v: "isValidTagAddress excmd"
    by blast
  have s1: "scanset (\<lambda>c. c \<noteq> TAB) line = Some (tag, [TAB] @ src @ [TAB] @ excmd @ rest)"
    using tag line by (auto simp: scanset_Some_iff)
  have s2: "scanset (\<lambda>c. c = TAB) ([TAB] @ src @ [TAB] @ excmd @ rest)
              = Some ([TAB], src @ [TAB] @ excmd @ rest)"
    using src by (cases src) (auto simp: scanset_Some_iff)
  have s3: "scanset (\<lambda>c. c \<noteq> TAB) (src @ [TAB] @ excmd @ rest)
              = Some (src, [TAB] @ excmd @ rest)"
    using src by (auto simp: scanset_Some_iff)
  have s4: "scanset (\<lambda>c. c = TAB) ([TAB] @ excmd @ rest) = Some ([TAB], excmd @ rest)"
    using ex by (cases excmd) (auto simp: scanset_Some_iff)
  have s5: "scanset (\<lambda>c. c \<noteq> CRETURN \<and> c \<noteq> NEWLINE) (excmd @ rest) = Some (excmd, rest)"
    using ex by (auto simp: scanset_Some_iff)
  have f: "sscanf_fields line = [tag, [TAB], src, [TAB], excmd]"
    unfolding sscanf_fields_five using s1 s2 s3 s4 s5 by blast
  from tag have h: "char_at tag 0 \<noteq> CHR ''#''"
    by (cases tag) (auto simp: char_at_def)
  from src have l: "char_at src (length src - 1) \<noteq> CHR '';''"
    by (simp add: char_at_def last_conv_nth)
  show ?L using f h l v by (simp add: isCtagsLine_def)
qed

lemma isEtagsLine_iff:
  "isEtagsLine line \<longleftrightarrow> (\<exists>c rest. line = FORMFEED # c # rest \<and> (c = NEWLINE \<or> c = CRETURN))"
proof (cases line)
  case Nil
  then show ?thesis by (simp add: isEtagsLine_def char_at_def NUL_def FORMFEED_def)
next
  case (Cons a as)
  then show ?thesis
    by (cases as) (auto simp: isEtagsLine_def char_at_def NUL_def NEWLINE_def CRETURN_def)
qed

lemma writePseudoTag_Inl:
  "writePseudoTag a b c d tf = Inl e \<Longrightarrow> e = Fatal ''cannot write tag file''"
  by (auto simp: writePseudoTag_def bindE_def abort_if_ferror_def Let_def split: if_splits sum.splits)

lemma bindE_Inl: "bindE m f = Inl e \<longleftrightarrow> m = Inl e \<or> (\<exists>x. m = Inr x \<and> f x = Inl e)"
  by (cases m) (auto simp: bindE_def)

lemma bindE_InlE:
  assumes "bindE m f = Inl e"
  obtains "m = Inl e" | x where "m = Inr x" and "f x = Inl e"
  using assms by (auto simp: bindE_Inl)

lemma addPseudoTags_Inl:
  assumes "addPseudoTags opts env tf = Inl e"
  shows "e = Fatal ''cannot write tag file''"
proof (cases "opt_xref opts")
  case True
  with assms show ?thesis by (simp add: addPseudoTags_def)
next
  case False
  with assms show ?thesis
    unfolding addPseudoTags_def Let_def
    by (simp only: if_True not_False_eq_True if_False)
       (elim bindE_InlE; (drule writePseudoTag_Inl, assumption)?;
        auto split: option.splits dest: writePseudoTag_Inl)
qed

lemma refusal_Cons:
  "refusal n = Fatal (CHR 0x22 # n @ [CHR 0x22]
                      @ '' doesn't look like a tag file; I refuse to overwrite it.'')"
  unfolding refusal_def by (simp only: append_Cons append_Nil)

lemma refusal_neq [simp]:
  "refusal n \<noteq> Fatal ''cannot write tag file''" "refusal n \<noteq> Fatal ''cannot open tag file''"
  "refusal n \<noteq> NoReturn"
  unfolding refusal_Cons by (simp_all only: error.inject list.inject char.inject error.distinct) simp_all

lemma refusal_neq_sym [simp]:
  "Fatal ''cannot write tag file'' \<noteq> refusal n" "Fatal ''cannot open tag file'' \<noteq> refusal n"
  "NoReturn \<noteq> refusal n"
  using refusal_neq [of n] by (simp_all only: not_sym not_False_eq_True)

text \<open>
  Claim C6, as the code has it. With a destination other than the standard output,
  \<open>openTagFile\<close> ends with the refusal to overwrite exactly when the destination file
  exists and either cannot be opened for reading, or its first line is neither a
  ctags line nor an etags line. A destination that does not exist and a readable
  empty file are not refused. A ctags line is a tag without a tab that does not begin
  with \<open>#\<close>, one tab, a file name without a tab that does not end in \<open>;\<close>, one tab, and
  an acceptable ex-command that runs to the end of the line; an etags line is a form
  feed followed by a line feed or a carriage return.
\<close>

theorem openTagFile_refusal:
  "(openTagFile opts env tf = Inl (refusal (opt_tagFileName opts)) \<longleftrightarrow>
      \<not> env_stdout env
      \<and> (\<exists>bytes. env_destination env = Some bytes
            \<and> (\<not> env_readable env
               \<or> (\<exists>l. firstLine bytes = Some l \<and> \<not> isCtagsLine l \<and> \<not> isEtagsLine l))))
   \<and> (env_destination env = None
        \<longrightarrow> openTagFile opts env tf \<noteq> Inl (refusal (opt_tagFileName opts)))
   \<and> (env_destination env = Some [] \<and> env_readable env
        \<longrightarrow> openTagFile opts env tf \<noteq> Inl (refusal (opt_tagFileName opts)))
   \<and> (isCtagsLine line \<longleftrightarrow>
        (\<exists>tag src excmd rest.
           line = tag @ [TAB] @ src @ [TAB] @ excmd @ rest
           \<and> tag \<noteq> [] \<and> TAB \<notin> set tag \<and> hd tag \<noteq> CHR ''#''
           \<and> src \<noteq> [] \<and> TAB \<notin> set src \<and> last src \<noteq> CHR '';''
           \<and> excmd \<noteq> [] \<and> hd excmd \<noteq> TAB \<and> CRETURN \<notin> set excmd \<and> NEWLINE \<notin> set excmd
           \<and> (rest = [] \<or> hd rest = CRETURN \<or> hd rest = NEWLINE)
           \<and> isValidTagAddress excmd))
   \<and> (isEtagsLine line \<longleftrightarrow>
        (\<exists>c rest. line = FORMFEED # c # rest \<and> (c = NEWLINE \<or> c = CRETURN)))"
proof -
  have fl: "fst (readLineRaw \<lparr>contents = bytes, pos = 0, seekable = s\<rparr>) = firstLine bytes"
    for bytes s
    by (simp add: firstLine_def readLineRaw_def Let_def)
  have op: "isTagFile (Opened fp) =
      (case fst (readLineRaw fp) of None \<Rightarrow> True
       | Some l \<Rightarrow> isCtagsLine l \<or> isEtagsLine l)" for fp
    by (simp add: isTagFile_def split: prod.splits option.splits)
  have tagfile: "isTagFile (fopen_rb env) \<longleftrightarrow>
      (case env_destination env of
         None \<Rightarrow> True
       | Some bytes \<Rightarrow> env_readable env
            \<and> (case firstLine bytes of None \<Rightarrow> True
                | Some l \<Rightarrow> isCtagsLine l \<or> isEtagsLine l))"
  proof (cases "env_destination env")
    case None
    then show ?thesis by (simp add: fopen_rb_def isTagFile_def)
  next
    case (Some bytes)
    show ?thesis
    proof (cases "env_readable env")
      case True
      with Some show ?thesis by (simp add: fopen_rb_def op fl)
    next
      case False
      with Some show ?thesis by (simp add: fopen_rb_def isTagFile_def)
    qed
  qed
  have main: "openTagFile opts env tf = Inl (refusal (opt_tagFileName opts)) \<longleftrightarrow>
      \<not> env_stdout env
      \<and> (\<exists>bytes. env_destination env = Some bytes
            \<and> (\<not> env_readable env
               \<or> (\<exists>l. firstLine bytes = Some l \<and> \<not> isCtagsLine l \<and> \<not> isEtagsLine l)))"
  proof (cases "env_stdout env")
    case True
    then show ?thesis
      by (auto simp: openTagFile_def bindE_Inl dest!: addPseudoTags_Inl)
  next
    case False
    show ?thesis
    proof (cases "env_destination env")
      case None
      with False show ?thesis
        by (auto simp: openTagFile_def bindE_Inl dest!: addPseudoTags_Inl)
    next
      case (Some bytes)
      show ?thesis
      proof (cases "isTagFile (fopen_rb env)")
        case t: True
        with False Some have "openTagFile opts env tf \<noteq> Inl (refusal (opt_tagFileName opts))"
          by (auto simp: openTagFile_def bindE_Inl Let_def dest!: addPseudoTags_Inl
              split: option.splits)
        with t False Some show ?thesis
          by (auto simp: tagfile split: option.splits)
      next
        case f: False
        with False Some have "openTagFile opts env tf = Inl (refusal (opt_tagFileName opts))"
          by (simp add: openTagFile_def)
        with f False Some show ?thesis
          by (auto simp: tagfile split: option.splits)
      qed
    qed
  qed
  have empty: "firstLine [] = None"
    by (simp add: firstLine_def readLineRaw_def)
  from main have none: "env_destination env = None
        \<longrightarrow> openTagFile opts env tf \<noteq> Inl (refusal (opt_tagFileName opts))"
    by simp
  from main empty have emp: "env_destination env = Some [] \<and> env_readable env
        \<longrightarrow> openTagFile opts env tf \<noteq> Inl (refusal (opt_tagFileName opts))"
    by simp
  from main none emp isCtagsLine_iff [of line] isEtagsLine_iff [of line]
  show ?thesis by (intro conjI)
qed

theorem openTagFile_refusal_witness:
  "openTagFile unsortedOptions sourceFileEnv TagFile_initial = Inl (refusal ''tags'')
   \<and> openTagFile unsortedOptions emptyFileEnv TagFile_initial \<noteq> Inl (refusal ''tags'')
   \<and> openTagFile unsortedOptions exampleEnv TagFile_initial \<noteq> Inl (refusal ''tags'')"
proof -
  have n: "opt_tagFileName unsortedOptions = ''tags''"
    by (simp add: unsortedOptions_def)
  have l: "firstLine (''int a;'' @ [TAB] @ ''/* c */'' @ [NEWLINE])
             = Some (''int a;'' @ [TAB] @ ''/* c */'' @ [NEWLINE])"
    by code_simp
  have c: "\<not> isCtagsLine (''int a;'' @ [TAB] @ ''/* c */'' @ [NEWLINE])"
    by code_simp
  have e: "\<not> isEtagsLine (''int a;'' @ [TAB] @ ''/* c */'' @ [NEWLINE])"
    by code_simp
  have s: "\<not> env_stdout sourceFileEnv"
    "env_destination sourceFileEnv = Some (''int a;'' @ [TAB] @ ''/* c */'' @ [NEWLINE])"
    by (simp_all add: sourceFileEnv_def exampleEnv_def)
  from openTagFile_refusal [of unsortedOptions sourceFileEnv TagFile_initial "[]"] n l c e s
  have one: "openTagFile unsortedOptions sourceFileEnv TagFile_initial = Inl (refusal ''tags'')"
    by simp
  have "env_destination emptyFileEnv = Some [] \<and> env_readable emptyFileEnv"
    by (simp add: emptyFileEnv_def exampleEnv_def)
  with openTagFile_refusal [of unsortedOptions emptyFileEnv TagFile_initial "[]"] n
  have two: "openTagFile unsortedOptions emptyFileEnv TagFile_initial \<noteq> Inl (refusal ''tags'')"
    by metis
  have "env_destination exampleEnv = None"
    by (simp add: exampleEnv_def)
  with openTagFile_refusal [of unsortedOptions exampleEnv TagFile_initial "[]"] n
  have three: "openTagFile unsortedOptions exampleEnv TagFile_initial \<noteq> Inl (refusal ''tags'')"
    by metis
  from one two three show ?thesis by simp
qed

text \<open>
  Claim C6 as it is written fails for a destination that exists and cannot be opened
  for reading: the file is a tag file (its first line is a ctags line), it is not
  readable, and \<open>openTagFile\<close> refuses to overwrite it.
\<close>

theorem openTagFile_unreadable_counterexample:
  "\<not> env_stdout unreadableEnv
   \<and> env_destination unreadableEnv = Some oneTagFile
   \<and> \<not> env_readable unreadableEnv
   \<and> map_option isCtagsLine (firstLine oneTagFile) = Some True
   \<and> openTagFile unsortedOptions unreadableEnv TagFile_initial = Inl (refusal ''tags'')"
proof -
  have "map_option isCtagsLine (firstLine oneTagFile) = Some True"
    by code_simp
  moreover have "openTagFile unsortedOptions unreadableEnv TagFile_initial
                   = Inl (refusal ''tags'')"
    by (simp add: openTagFile_def unreadableEnv_def exampleEnv_def fopen_rb_def isTagFile_def
        unsortedOptions_def)
  ultimately show ?thesis
    by (simp add: unreadableEnv_def exampleEnv_def)
qed

subsection \<open>The pattern of a tag\<close>

lemma quotedLine_Nil [simp]: "quotedLine opts [] = []"
  by (simp add: quotedLine_def)









subsection \<open>Tags with an empty name\<close>

text \<open>
  Claim C5. For a tag whose name is the empty string and whose placeholder flag is not
  set, \<open>makeTagEntry\<close> returns 0 (\<open>SCOPE_NIL\<close>); nothing is written and nothing is queued:
  the tag file state is the one before the call, but for the messages, which get
  one warning more exactly when the input language does not allow null tags.
\<close>

theorem makeTagEntry_null_tag:
  assumes "name tag = []" and "\<not> placeholder tag"
  shows "\<exists>tf'. makeTagEntry opts env en tag tf = Inr (0, tf')
           \<and> tf'\<lparr>tf_messages := tf_messages tf\<rparr> = tf
           \<and> tf_fp tf' = tf_fp tf \<and> tf_etags_fp tf' = tf_etags_fp tf
           \<and> tf_queue tf' = tf_queue tf \<and> tf_count tf' = tf_count tf
           \<and> tf_numTags_added tf' = tf_numTags_added tf
           \<and> (env_allowNullTag env \<longrightarrow> tf_messages tf' = tf_messages tf)
           \<and> (\<not> env_allowNullTag env \<longrightarrow>
                (\<exists>text. tf_messages tf' = tf_messages tf @ [Warning text]))"
  using assms by (simp add: makeTagEntry_def SCOPE_NIL_def)

theorem makeTagEntry_null_tag_witness:
  "name (mainTag\<lparr>name := []\<rparr>) = [] \<and> \<not> placeholder (mainTag\<lparr>name := []\<rparr>)
   \<and> (\<exists>tf'. makeTagEntry unsortedOptions exampleEnv initialEnabled (mainTag\<lparr>name := []\<rparr>)
               (corkTagFile TagFile_initial) = Inr (0, tf')
            \<and> tf_queue tf' = tf_queue (corkTagFile TagFile_initial)
            \<and> tf_fp tf' = []
            \<and> (\<exists>text. tf_messages tf' = [Warning text]))"
proof -
  have a: "name (mainTag\<lparr>name := []\<rparr>) = []" by simp
  have b: "\<not> placeholder (mainTag\<lparr>name := []\<rparr>)"
    by (simp add: mainTag_def initTagEntryFull_def zeroTagEntry_def)
  have c: "\<not> env_allowNullTag exampleEnv" by (simp add: exampleEnv_def)
  have d: "tf_fp (corkTagFile TagFile_initial) = []"
    "tf_messages (corkTagFile TagFile_initial) = []"
    by (simp_all add: corkTagFile_def TagFile_initial_def Let_def)
  from makeTagEntry_null_tag [OF a b, of unsortedOptions exampleEnv initialEnabled
      "corkTagFile TagFile_initial"] c d
  show ?thesis using a b by auto
qed

subsection \<open>Cork sessions\<close>







lemma rememberMaxLengths_frame [simp]:
  "tf_queue (rememberMaxLengths a b tf) = tf_queue tf"
  "tf_count (rememberMaxLengths a b tf) = tf_count tf"
  "tf_length (rememberMaxLengths a b tf) = tf_length tf"
  "tf_cork (rememberMaxLengths a b tf) = tf_cork tf"
  "tf_fp (rememberMaxLengths a b tf) = tf_fp tf"
  "tf_ferror (rememberMaxLengths a b tf) = tf_ferror tf"
  by (simp_all add: rememberMaxLengths_def Let_def)

















subsection \<open>The flush of the cork queue\<close>




end
